theory Spec2Isabelle
  imports Main "HOL-Library.Word" "HOL-Library.Signed_Division" "HOL-Library.AList"
begin

section \<open>Values of the plugin framework\<close>

text \<open>
  Go strings are byte sequences, so a Go \<^verbatim>\<open>string\<close> and a \<^verbatim>\<open>[]byte\<close> are both
  \<^typ>\<open>string\<close> here (a list of 8-bit characters). Go's \<^verbatim>\<open>int\<close> and \<^verbatim>\<open>int64\<close>
  are 64-bit words (the provider is built for 64-bit platforms), \<^verbatim>\<open>uint32\<close> is a
  32-bit word. An \<^verbatim>\<open>error\<close> is represented by its message.
\<close>

type_synonym go_int = "64 word"
type_synonym int64 = "64 word"
type_synonym uint32 = "32 word"
type_synonym go_error = string

text \<open>
  \<^verbatim>\<open>types.String\<close>, \<^verbatim>\<open>types.Int64\<close> and \<^verbatim>\<open>types.Bool\<close> are null, unknown or a
  value; \<^verbatim>\<open>ValueString\<close> and its siblings return the zero value for null and unknown.
\<close>

datatype tf_string = StringNull | StringUnknown | StringValue string

fun String_IsNull :: "tf_string \<Rightarrow> bool" where
  "String_IsNull StringNull = True"
| "String_IsNull StringUnknown = False"
| "String_IsNull (StringValue s) = False"

fun ValueString :: "tf_string \<Rightarrow> string" where
  "ValueString StringNull = []"
| "ValueString StringUnknown = []"
| "ValueString (StringValue s) = s"

datatype tf_int64 = Int64Null | Int64Unknown | Int64Value int64

fun Int64_IsNull :: "tf_int64 \<Rightarrow> bool" where
  "Int64_IsNull Int64Null = True"
| "Int64_IsNull Int64Unknown = False"
| "Int64_IsNull (Int64Value n) = False"

fun ValueInt64 :: "tf_int64 \<Rightarrow> int64" where
  "ValueInt64 Int64Null = 0"
| "ValueInt64 Int64Unknown = 0"
| "ValueInt64 (Int64Value n) = n"

datatype tf_bool = BoolNull | BoolUnknown | BoolValue bool

fun ValueBool :: "tf_bool \<Rightarrow> bool" where
  "ValueBool BoolNull = False"
| "ValueBool BoolUnknown = False"
| "ValueBool (BoolValue b) = b"

text \<open>
  \<^verbatim>\<open>types.List\<close> of strings and \<^verbatim>\<open>types.Map\<close> of strings. The entries of a map
  value are listed in the order in which Go's \<^verbatim>\<open>range\<close> happens to visit them; the
  keys of a map are distinct. \<^verbatim>\<open>ElementsAs\<close> into \<^verbatim>\<open>[]string\<close> or
  \<^verbatim>\<open>map[string]string\<close> reports an error when an element is null or unknown.
\<close>

datatype tf_list = ListNull | ListUnknown | ListValue "tf_string list"

datatype tf_map = MapNull | MapUnknown | MapValue "(string \<times> tf_string) list"

fun List_IsNull :: "tf_list \<Rightarrow> bool" where
  "List_IsNull ListNull = True"
| "List_IsNull ListUnknown = False"
| "List_IsNull (ListValue xs) = False"

fun Map_IsNull :: "tf_map \<Rightarrow> bool" where
  "Map_IsNull MapNull = True"
| "Map_IsNull MapUnknown = False"
| "Map_IsNull (MapValue kvs) = False"

datatype severity = SeverityError | SeverityWarning

record diagnostic =
  diag_severity :: severity
  diag_summary :: string
  diag_detail :: string

type_synonym diagnostics = "diagnostic list"

definition AddError :: "diagnostics \<Rightarrow> string \<Rightarrow> string \<Rightarrow> diagnostics" where
  "AddError ds summary detail =
     ds @ [\<lparr>diag_severity = SeverityError, diag_summary = summary, diag_detail = detail\<rparr>]"

definition AddWarning :: "diagnostics \<Rightarrow> string \<Rightarrow> string \<Rightarrow> diagnostics" where
  "AddWarning ds summary detail =
     ds @ [\<lparr>diag_severity = SeverityWarning, diag_summary = summary, diag_detail = detail\<rparr>]"

fun HasError :: "diagnostics \<Rightarrow> bool" where
  "HasError [] = False"
| "HasError (d # ds) = (diag_severity d = SeverityError \<or> HasError ds)"

fun known_strings :: "tf_string list \<Rightarrow> string list option" where
  "known_strings [] = Some []"
| "known_strings (StringValue s # xs) =
     (case known_strings xs of None \<Rightarrow> None | Some ys \<Rightarrow> Some (s # ys))"
| "known_strings (x # xs) = None"

fun known_entries :: "(string \<times> tf_string) list \<Rightarrow> (string \<times> string) list option" where
  "known_entries [] = Some []"
| "known_entries ((k, StringValue s) # xs) =
     (case known_entries xs of None \<Rightarrow> None | Some ys \<Rightarrow> Some ((k, s) # ys))"
| "known_entries (x # xs) = None"

text \<open>The character \<^verbatim>\<open>'\<close> of the messages.\<close>

definition quote :: string where
  "quote = [CHR 0x27]"

text \<open>
  The error diagnostic of a failed conversion. Its severity and summary are the
  framework's; the detail, a longer text that the framework composes from the value
  and the target type, is not modelled and is left empty.
\<close>

definition conversion_error :: diagnostic where
  "conversion_error =
     \<lparr>diag_severity = SeverityError, diag_summary = ''Value Conversion Error'',
      diag_detail = []\<rparr>"

text \<open>\<^verbatim>\<open>ElementsAs\<close>: the diagnostics it returns and the Go value it fills in.\<close>

fun List_ElementsAs :: "tf_list \<Rightarrow> diagnostics \<times> string list" where
  "List_ElementsAs (ListValue xs) =
     (case known_strings xs of None \<Rightarrow> ([conversion_error], []) | Some ys \<Rightarrow> ([], ys))"
| "List_ElementsAs ListNull = ([], [])"
| "List_ElementsAs ListUnknown = ([conversion_error], [])"

fun Map_ElementsAs :: "tf_map \<Rightarrow> diagnostics \<times> (string \<times> string) list" where
  "Map_ElementsAs (MapValue kvs) =
     (case known_entries kvs of None \<Rightarrow> ([conversion_error], []) | Some ys \<Rightarrow> ([], ys))"
| "Map_ElementsAs MapNull = ([], [])"
| "Map_ElementsAs MapUnknown = ([conversion_error], [])"

section \<open>Command execution (exec\_resource.go)\<close>

text \<open>
  One element of the channel that \<^verbatim>\<open>client.Exec\<close> returns. \<^verbatim>\<open>executeCommand\<close>
  assigns \<^verbatim>\<open>result.ExitCode\<close> to its \<^verbatim>\<open>int\<close> result, so the field is a plain Go
  \<^verbatim>\<open>int\<close>: it has no absent state, only the zero value.
\<close>

record SlicerExecWriteResult =
  Stdout :: string
  Stderr :: string
  ExitCode :: go_int
  Error :: string

record SlicerExecRequest =
  req_Command :: string
  req_Args :: "string list"
  req_UID :: uint32
  req_GID :: uint32
  req_Stdout :: bool
  req_Stderr :: bool
  req_Cwd :: string
  req_Shell :: string

record ExecResourceModel =
  exec_ID :: tf_string
  exec_Hostname :: tf_string
  exec_Command :: tf_string
  exec_Args :: tf_list
  exec_User :: tf_string
  exec_UID :: tf_int64
  exec_GID :: tf_int64
  exec_Workdir :: tf_string
  exec_Shell :: tf_string
  exec_Triggers :: tf_map
  exec_ExitCode :: tf_int64
  exec_Stdout :: tf_string
  exec_Stderr :: tf_string

text \<open>
  The client's \<^verbatim>\<open>Exec\<close> either fails with an error or hands back a channel; the
  channel is the finite list of results it delivers before it is closed.
\<close>

type_synonym exec_client =
  "string \<Rightarrow> SlicerExecRequest \<Rightarrow> go_error + SlicerExecWriteResult list"

text \<open>
  What \<^verbatim>\<open>executeCommand\<close> returns, together with the results still waiting on
  the channel when it returns (\<open>ret_pending\<close>): the \<^verbatim>\<open>range\<close> loop receives one
  result per iteration, and a \<^verbatim>\<open>return\<close> inside the loop leaves the rest unreceived.
\<close>

record exec_return =
  ret_stdout :: string
  ret_stderr :: string
  ret_exitCode :: go_int
  ret_err :: "go_error option"
  ret_pending :: "SlicerExecWriteResult list"

text \<open>The request built before the call (lines 208--228).\<close>

definition build_exec_request :: "ExecResourceModel \<Rightarrow> SlicerExecRequest" where
  "build_exec_request data =
     (let execReq = \<lparr>req_Command = ValueString (exec_Command data), req_Args = [],
                     req_UID = ucast (ValueInt64 (exec_UID data)),
                     req_GID = ucast (ValueInt64 (exec_GID data)),
                     req_Stdout = True, req_Stderr = True, req_Cwd = [], req_Shell = []\<rparr>;
          execReq = (if \<not> List_IsNull (exec_Args data)
                     then execReq\<lparr>req_Args := snd (List_ElementsAs (exec_Args data))\<rparr>
                     else execReq);
          execReq = (if \<not> String_IsNull (exec_Workdir data)
                     then execReq\<lparr>req_Cwd := ValueString (exec_Workdir data)\<rparr>
                     else execReq);
          execReq = (if \<not> String_IsNull (exec_Shell data)
                     then execReq\<lparr>req_Shell := ValueString (exec_Shell data)\<rparr>
                     else execReq)
      in execReq)"

text \<open>
  The \<^verbatim>\<open>for result := range resultChan\<close> loop (lines 242--253), with the two
  builders and the named result \<^verbatim>\<open>exitCode\<close> as loop state.
\<close>

fun range_resultChan ::
  "string \<Rightarrow> string \<Rightarrow> go_int \<Rightarrow> SlicerExecWriteResult list \<Rightarrow> exec_return" where
  "range_resultChan stdoutBuilder stderrBuilder exitCode [] =
     \<lparr>ret_stdout = stdoutBuilder, ret_stderr = stderrBuilder, ret_exitCode = exitCode,
      ret_err = None, ret_pending = []\<rparr>"
| "range_resultChan stdoutBuilder stderrBuilder exitCode (result # rest) =
     (if Error result \<noteq> []
      then \<lparr>ret_stdout = stdoutBuilder, ret_stderr = stderrBuilder,
            ret_exitCode = ExitCode result,
            ret_err = Some (''exec error: '' @ Error result), ret_pending = rest\<rparr>
      else range_resultChan
             (if Stdout result \<noteq> [] then stdoutBuilder @ Stdout result else stdoutBuilder)
             (if Stderr result \<noteq> [] then stderrBuilder @ Stderr result else stderrBuilder)
             (ExitCode result) rest)"

definition executeCommand :: "exec_client \<Rightarrow> ExecResourceModel \<Rightarrow> exec_return" where
  "executeCommand client data =
     (case client (ValueString (exec_Hostname data)) (build_exec_request data) of
        Inl err \<Rightarrow>
          \<lparr>ret_stdout = [], ret_stderr = [], ret_exitCode = - 1, ret_err = Some err,
           ret_pending = []\<rparr>
      | Inr resultChan \<Rightarrow> range_resultChan [] [] 0 resultChan)"

text \<open>
  What a resource or data source method leaves in its response: the diagnostics, and
  what it did to the state (\<open>NotWritten\<close>: no call of \<^verbatim>\<open>State.Set\<close> or
  \<^verbatim>\<open>RemoveResource\<close> was reached). The diagnostics that \<^verbatim>\<open>Plan.Get\<close>,
  \<^verbatim>\<open>State.Get\<close> or \<^verbatim>\<open>Config.Get\<close> return are an argument of each method, beside
  the model they decode; \<^verbatim>\<open>State.Set\<close> of a model of the schema's own types returns
  no diagnostics.
\<close>

datatype 'm state_write = NotWritten | Written 'm | Removed

record 'm response =
  Diagnostics :: diagnostics
  State :: "'m state_write"



subsection \<open>Result chunks as the remote sends them\<close>

text \<open>
  Modelled from the spec: the package \<^verbatim>\<open>internal/slicer\<close>, which reads the remote's
  frames into \<^verbatim>\<open>SlicerExecWriteResult\<close> values, is not among the sources. The spec's
  Result Chunk has a stdout fragment, a stderr fragment, an exit code that a chunk may
  or may not set, and an error string. A chunk that sets no exit code reaches
  \<^verbatim>\<open>executeCommand\<close> with the field at Go's zero value.
\<close>

record ResultChunk =
  chunk_stdout :: string
  chunk_stderr :: string
  chunk_exit_code :: "go_int option"
  chunk_error :: string

definition decode_chunk :: "ResultChunk \<Rightarrow> SlicerExecWriteResult" where
  "decode_chunk c =
     \<lparr>Stdout = chunk_stdout c, Stderr = chunk_stderr c,
      ExitCode = (case chunk_exit_code c of None \<Rightarrow> 0 | Some n \<Rightarrow> n),
      Error = chunk_error c\<rparr>"

text \<open>
  The exit code in the spec's words: the code of the last chunk that set one; a chunk
  that sets none leaves the code observed before unchanged. \<open>prev\<close> is the code
  observed so far.
\<close>

fun last_set_exit_code :: "go_int \<Rightarrow> ResultChunk list \<Rightarrow> go_int" where
  "last_set_exit_code prev [] = prev"
| "last_set_exit_code prev (c # cs) =
     last_set_exit_code (case chunk_exit_code c of None \<Rightarrow> prev | Some n \<Rightarrow> n) cs"

section \<open>File transfer (file\_resource.go)\<close>

record FileResourceModel =
  file_ID :: tf_string
  file_Hostname :: tf_string
  file_Destination :: tf_string
  file_Content :: tf_string
  file_Source :: tf_string
  file_Permissions :: tf_string
  file_Owner :: tf_int64
  file_Group :: tf_int64
  file_ContentHash :: tf_string

text \<open>The arguments of one call of \<^verbatim>\<open>client.CpToVM\<close>, in the order of the call.\<close>

record CpToVM_args =
  cp_vmName :: string
  cp_localPath :: string
  cp_vmPath :: string
  cp_uid :: uint32
  cp_gid :: uint32
  cp_permissions :: string
  cp_mode :: string

text \<open>
  The world \<^verbatim>\<open>copyFile\<close> and \<^verbatim>\<open>Delete\<close> act on: the local file system
  (\<^verbatim>\<open>os.ReadFile\<close>, \<^verbatim>\<open>os.CreateTemp\<close>, which yields the name of the new file,
  and \<^verbatim>\<open>tmpFile.Write\<close>) and the client. Each call is answered by the world and
  recorded, in program order, as an event.
\<close>

record file_world =
  os_ReadFile :: "string \<Rightarrow> go_error + string"
  os_CreateTemp :: "go_error + string"
  tmpFile_Write :: "string \<Rightarrow> string \<Rightarrow> go_error option"
  client_CpToVM :: "CpToVM_args \<Rightarrow> go_error option"
  client_Exec :: exec_client

datatype file_event =
    EvReadFile string
  | EvSum256 string
  | EvCreateTemp
  | EvWrite string string
  | EvClose string
  | EvCpToVM CpToVM_args
  | EvRemove string
  | EvExec string SlicerExecRequest

fun is_CpToVM :: "file_event \<Rightarrow> bool" where
  "is_CpToVM (EvCpToVM a) = True"
| "is_CpToVM e = False"

text \<open>
  \<^verbatim>\<open>fmt.Sprintf("%x", hash)\<close> of a byte array: two lower-case hexadecimal digits
  for each byte.
\<close>

definition hex_digit :: "nat \<Rightarrow> char" where
  "hex_digit n = ''0123456789abcdef'' ! n"

definition hex_byte :: "char \<Rightarrow> string" where
  "hex_byte c = [hex_digit (of_char c div 16), hex_digit (of_char c mod 16)]"

definition Sprintf_x :: "string \<Rightarrow> string" where
  "Sprintf_x bs = concat (map hex_byte bs)"

text \<open>
  \<^verbatim>\<open>copyFile\<close> (lines 229--287). \<open>Sum256\<close> stands for \<^verbatim>\<open>sha256.Sum256\<close> of Go's
  standard library, a function from the bytes to the 32 bytes of the digest. The
  result is the list of events and the pair the Go function returns (an error, or the
  content hash). The deferred \<^verbatim>\<open>os.Remove\<close> runs last on every path after the
  temporary file was created.
\<close>

definition copyFile ::
  "(string \<Rightarrow> string) \<Rightarrow> file_world \<Rightarrow> FileResourceModel \<Rightarrow>
     file_event list \<times> (go_error + string)" where
  "copyFile Sum256 w data =
     (case (if \<not> String_IsNull (file_Content data)
            then ([], Inr (ValueString (file_Content data)))
            else ([EvReadFile (ValueString (file_Source data))],
                  os_ReadFile w (ValueString (file_Source data)))) of
        (ev, Inl err) \<Rightarrow> (ev, Inl (''failed to read source file: '' @ err))
      | (ev, Inr content) \<Rightarrow>
          (let hash = Sum256 content;
               contentHash = Sprintf_x hash;
               ev = ev @ [EvSum256 content, EvCreateTemp]
           in case os_CreateTemp w of
                Inl err \<Rightarrow> (ev, Inl (''failed to create temp file: '' @ err))
              | Inr tmpFile \<Rightarrow>
                  (case tmpFile_Write w tmpFile content of
                     Some err \<Rightarrow>
                       (ev @ [EvWrite tmpFile content, EvClose tmpFile, EvRemove tmpFile],
                        Inl (''failed to write temp file: '' @ err))
                   | None \<Rightarrow>
                       (let args = \<lparr>cp_vmName = ValueString (file_Hostname data),
                                    cp_localPath = tmpFile,
                                    cp_vmPath = ValueString (file_Destination data),
                                    cp_uid = ucast (ValueInt64 (file_Owner data)),
                                    cp_gid = ucast (ValueInt64 (file_Group data)),
                                    cp_permissions = ValueString (file_Permissions data),
                                    cp_mode = ''binary''\<rparr>;
                            ev = ev @ [EvWrite tmpFile content, EvClose tmpFile, EvCpToVM args]
                        in case client_CpToVM w args of
                             Some err \<Rightarrow>
                               (ev @ [EvRemove tmpFile],
                                Inl (''failed to copy file to VM: '' @ err))
                           | None \<Rightarrow> (ev @ [EvRemove tmpFile], Inr contentHash)))))"

text \<open>The bytes \<^verbatim>\<open>copyFile\<close> works on: the content attribute, or the source file.\<close>

definition file_payload :: "file_world \<Rightarrow> FileResourceModel \<Rightarrow> go_error + string" where
  "file_payload w data =
     (if \<not> String_IsNull (file_Content data) then Inr (ValueString (file_Content data))
      else os_ReadFile w (ValueString (file_Source data)))"

definition FileResource_Create ::
  "(string \<Rightarrow> string) \<Rightarrow> file_world \<Rightarrow> diagnostics \<Rightarrow> FileResourceModel \<Rightarrow>
     file_event list \<times> FileResourceModel response" where
  "FileResource_Create Sum256 w plan_diags data =
     (if HasError plan_diags then ([], \<lparr>Diagnostics = plan_diags, State = NotWritten\<rparr>)
      else if String_IsNull (file_Content data) \<and> String_IsNull (file_Source data)
      then ([], \<lparr>Diagnostics = AddError plan_diags ''Missing File Content''
                     (''Either '' @ quote @ ''content'' @ quote @ '' or '' @ quote @ ''source'' @ quote @
                      '' must be specified.''),
                 State = NotWritten\<rparr>)
      else if \<not> String_IsNull (file_Content data) \<and> \<not> String_IsNull (file_Source data)
      then ([], \<lparr>Diagnostics = AddError plan_diags ''Conflicting Attributes''
                     (''Only one of '' @ quote @ ''content'' @ quote @ '' or '' @ quote @ ''source'' @ quote @
                      '' can be specified.''),
                 State = NotWritten\<rparr>)
      else
        (case copyFile Sum256 w data of
           (ev, Inl err) \<Rightarrow>
             (ev, \<lparr>Diagnostics = AddError plan_diags ''Copy Error''
                                   (''Unable to copy file: '' @ err),
                   State = NotWritten\<rparr>)
         | (ev, Inr contentHash) \<Rightarrow>
             (ev, \<lparr>Diagnostics = plan_diags,
                   State = Written (data
                     \<lparr>file_ID := StringValue (ValueString (file_Hostname data) @ '':'' @
                                               ValueString (file_Destination data)),
                      file_ContentHash := StringValue contentHash\<rparr>)\<rparr>)))"

definition FileResource_Update ::
  "(string \<Rightarrow> string) \<Rightarrow> file_world \<Rightarrow> diagnostics \<Rightarrow> FileResourceModel \<Rightarrow>
     file_event list \<times> FileResourceModel response" where
  "FileResource_Update Sum256 w plan_diags data =
     (if HasError plan_diags then ([], \<lparr>Diagnostics = plan_diags, State = NotWritten\<rparr>)
      else
        (case copyFile Sum256 w data of
           (ev, Inl err) \<Rightarrow>
             (ev, \<lparr>Diagnostics = AddError plan_diags ''Copy Error''
                                   (''Unable to copy file: '' @ err),
                   State = NotWritten\<rparr>)
         | (ev, Inr contentHash) \<Rightarrow>
             (ev, \<lparr>Diagnostics = plan_diags,
                   State = Written (data\<lparr>file_ContentHash := StringValue contentHash\<rparr>)\<rparr>)))"

text \<open>\<^verbatim>\<open>Read\<close> keeps the state; \<^verbatim>\<open>Delete\<close> runs \<^verbatim>\<open>rm -f\<close> and drains the channel.\<close>

definition FileResource_Read ::
  "diagnostics \<Rightarrow> FileResourceModel \<Rightarrow> FileResourceModel response" where
  "FileResource_Read state_diags data =
     (if HasError state_diags then \<lparr>Diagnostics = state_diags, State = NotWritten\<rparr>
      else \<lparr>Diagnostics = state_diags, State = Written data\<rparr>)"

text \<open>\<^verbatim>\<open>for range resultChan { }\<close>: receives every result; what is left on the channel.\<close>

fun drain :: "SlicerExecWriteResult list \<Rightarrow> SlicerExecWriteResult list" where
  "drain [] = []"
| "drain (result # rest) = drain rest"

definition FileResource_Delete ::
  "file_world \<Rightarrow> diagnostics \<Rightarrow> FileResourceModel \<Rightarrow>
     file_event list \<times> diagnostics \<times> SlicerExecWriteResult list" where
  "FileResource_Delete w state_diags data =
     (if HasError state_diags then ([], state_diags, [])
      else
        (let execReq = \<lparr>req_Command = ''rm'',
                        req_Args = [''-f'', ValueString (file_Destination data)],
                        req_UID = 0, req_GID = 0, req_Stdout = False, req_Stderr = False,
                        req_Cwd = [], req_Shell = []\<rparr>;
             ev = [EvExec (ValueString (file_Hostname data)) execReq]
         in case client_Exec w (ValueString (file_Hostname data)) execReq of
              Inl err \<Rightarrow>
                (ev, AddWarning state_diags ''Delete Warning''
                       (''Unable to delete file: '' @ err), [])
            | Inr resultChan \<Rightarrow> (ev, state_diags, drain resultChan)))"

section \<open>Secrets (secret\_resource.go and the secret data source)\<close>

text \<open>
  \<^verbatim>\<open>slicer.Secret\<close>, an element of what \<^verbatim>\<open>ListSecrets\<close> returns. Its declaration
  is in \<^verbatim>\<open>internal/slicer\<close>; the fields are the ones the provider reads, which are
  the ones the spec lists for a secret's metadata. The record is left open
  (\<open>'a Secret_scheme\<close>): whatever else the remote's answer carries is its
  \<open>more\<close> part.
\<close>

record Secret =
  Name :: string
  Size :: int64
  Permissions :: string
  UID :: uint32
  GID :: uint32

record SecretResourceModel =
  secret_ID :: tf_string
  secret_Name :: tf_string
  secret_Value :: tf_string
  secret_Permissions :: tf_string
  secret_UID :: tf_int64
  secret_GID :: tf_int64

record SecretDataSourceModel =
  sds_Name :: tf_string
  sds_Size :: tf_int64
  sds_Permissions :: tf_string
  sds_UID :: tf_int64
  sds_GID :: tf_int64

record CreateSecretRequest =
  csr_Name :: string
  csr_Data :: string
  csr_Permissions :: string
  csr_UID :: uint32
  csr_GID :: uint32

record UpdateSecretRequest =
  usr_Data :: string
  usr_Permissions :: string
  usr_UID :: uint32
  usr_GID :: uint32

text \<open>
  The loop \<^verbatim>\<open>for _, secret := range secrets\<close> with its \<^verbatim>\<open>break\<close>: the first
  secret of that name, or \<^verbatim>\<open>nil\<close>.
\<close>

fun find_secret :: "string \<Rightarrow> 'a Secret_scheme list \<Rightarrow> 'a Secret_scheme option" where
  "find_secret name [] = None"
| "find_secret name (secret # secrets) =
     (if Name secret = name then Some secret else find_secret name secrets)"

definition SecretResource_Create ::
  "(CreateSecretRequest \<Rightarrow> go_error option) \<Rightarrow> diagnostics \<Rightarrow> SecretResourceModel \<Rightarrow>
     CreateSecretRequest option \<times> SecretResourceModel response" where
  "SecretResource_Create CreateSecret plan_diags data =
     (if HasError plan_diags then (None, \<lparr>Diagnostics = plan_diags, State = NotWritten\<rparr>)
      else
        (let createReq = \<lparr>csr_Name = ValueString (secret_Name data),
                          csr_Data = ValueString (secret_Value data),
                          csr_Permissions = ValueString (secret_Permissions data),
                          csr_UID = ucast (ValueInt64 (secret_UID data)),
                          csr_GID = ucast (ValueInt64 (secret_GID data))\<rparr>
         in case CreateSecret createReq of
              Some err \<Rightarrow>
                (Some createReq,
                 \<lparr>Diagnostics = AddError plan_diags ''Client Error''
                                   (''Unable to create secret: '' @ err),
                  State = NotWritten\<rparr>)
            | None \<Rightarrow>
                (Some createReq,
                 \<lparr>Diagnostics = plan_diags,
                  State = Written (data\<lparr>secret_ID := secret_Name data\<rparr>)\<rparr>)))"

text \<open>
  \<^verbatim>\<open>SecretResource.Read\<close> (lines 147--182): \<open>ListSecrets\<close> is the answer of
  \<^verbatim>\<open>client.ListSecrets\<close>, \<open>data\<close> the prior state.
\<close>

definition SecretResource_Read ::
  "(go_error + 'a Secret_scheme list) \<Rightarrow> diagnostics \<Rightarrow> SecretResourceModel \<Rightarrow>
     SecretResourceModel response" where
  "SecretResource_Read ListSecrets state_diags data =
     (if HasError state_diags then \<lparr>Diagnostics = state_diags, State = NotWritten\<rparr>
      else
        (case ListSecrets of
           Inl err \<Rightarrow>
             \<lparr>Diagnostics = AddError state_diags ''Client Error''
                               (''Unable to list secrets: '' @ err),
              State = NotWritten\<rparr>
         | Inr secrets \<Rightarrow>
             (case find_secret (ValueString (secret_Name data)) secrets of
                None \<Rightarrow> \<lparr>Diagnostics = state_diags, State = Removed\<rparr>
              | Some found \<Rightarrow>
                  \<lparr>Diagnostics = state_diags,
                   State = Written (data
                     \<lparr>secret_Permissions := StringValue (Permissions found),
                      secret_UID := Int64Value (ucast (UID found)),
                      secret_GID := Int64Value (ucast (GID found))\<rparr>)\<rparr>)))"

definition SecretResource_Update ::
  "(string \<Rightarrow> UpdateSecretRequest \<Rightarrow> go_error option) \<Rightarrow> diagnostics \<Rightarrow>
     SecretResourceModel \<Rightarrow> SecretResourceModel response" where
  "SecretResource_Update PatchSecret plan_diags data =
     (if HasError plan_diags then \<lparr>Diagnostics = plan_diags, State = NotWritten\<rparr>
      else
        (let updateReq = \<lparr>usr_Data = ValueString (secret_Value data),
                          usr_Permissions = ValueString (secret_Permissions data),
                          usr_UID = ucast (ValueInt64 (secret_UID data)),
                          usr_GID = ucast (ValueInt64 (secret_GID data))\<rparr>
         in case PatchSecret (ValueString (secret_Name data)) updateReq of
              Some err \<Rightarrow>
                \<lparr>Diagnostics = AddError plan_diags ''Client Error''
                                  (''Unable to update secret: '' @ err),
                 State = NotWritten\<rparr>
            | None \<Rightarrow> \<lparr>Diagnostics = plan_diags, State = Written data\<rparr>))"

text \<open>
  \<^verbatim>\<open>SecretDataSource.Read\<close> (lines 88--131 of the data source): \<open>data\<close> is the
  configuration, of which only the name is set.
\<close>

definition SecretDataSource_Read ::
  "(go_error + 'a Secret_scheme list) \<Rightarrow> diagnostics \<Rightarrow> SecretDataSourceModel \<Rightarrow>
     SecretDataSourceModel response" where
  "SecretDataSource_Read ListSecrets config_diags data =
     (if HasError config_diags then \<lparr>Diagnostics = config_diags, State = NotWritten\<rparr>
      else
        (case ListSecrets of
           Inl err \<Rightarrow>
             \<lparr>Diagnostics = AddError config_diags ''Client Error''
                               (''Unable to list secrets: '' @ err),
              State = NotWritten\<rparr>
         | Inr secrets \<Rightarrow>
             (case find_secret (ValueString (sds_Name data)) secrets of
                None \<Rightarrow>
                  \<lparr>Diagnostics = AddError config_diags ''Not Found''
                     (''Secret with name '' @ quote @ ValueString (sds_Name data) @ quote @
                      '' not found''),
                   State = NotWritten\<rparr>
              | Some found \<Rightarrow>
                  \<lparr>Diagnostics = config_diags,
                   State = Written (data
                     \<lparr>sds_Size := Int64Value (Size found),
                      sds_Permissions := StringValue (Permissions found),
                      sds_UID := Int64Value (ucast (UID found)),
                      sds_GID := Int64Value (ucast (GID found))\<rparr>)\<rparr>)))"

section \<open>Virtual machines (vm\_resource.go and the VM data sources)\<close>

subsection \<open>The functions of Go's \<^verbatim>\<open>strings\<close> package that the provider calls\<close>

fun HasPrefix :: "string \<Rightarrow> string \<Rightarrow> bool" where
  "HasPrefix s [] = True"
| "HasPrefix [] (p # ps) = False"
| "HasPrefix (c # cs) (p # ps) = (c = p \<and> HasPrefix cs ps)"

fun Contains :: "string \<Rightarrow> string \<Rightarrow> bool" where
  "Contains [] substr = (substr = [])"
| "Contains (c # cs) substr = (HasPrefix (c # cs) substr \<or> Contains cs substr)"

text \<open>
  \<^verbatim>\<open>strings.Split(s, sep)\<close> and \<^verbatim>\<open>strings.SplitN(s, sep, 2)\<close> for a separator of
  one byte, which is how the provider calls them (\<^verbatim>\<open>"/"\<close> and \<^verbatim>\<open>"="\<close>).
  \<^verbatim>\<open>Split\<close> never returns an empty slice.
\<close>

fun Split :: "string \<Rightarrow> char \<Rightarrow> string list" where
  "Split [] sep = [[]]"
| "Split (c # cs) sep =
     (if c = sep then [] # Split cs sep
      else (case Split cs sep of [] \<Rightarrow> [[c]] | part # parts \<Rightarrow> (c # part) # parts))"

fun SplitN_2 :: "string \<Rightarrow> char \<Rightarrow> string list" where
  "SplitN_2 [] sep = [[]]"
| "SplitN_2 (c # cs) sep =
     (if c = sep then [[], cs]
      else (case SplitN_2 cs sep of
              [part] \<Rightarrow> [c # part]
            | part # parts \<Rightarrow> (c # part) # parts
            | [] \<Rightarrow> [[c]]))"

subsection \<open>Data\<close>

text \<open>
  \<^verbatim>\<open>time.Time\<close> is an instant (nanoseconds since the epoch);
  \<^verbatim>\<open>CreatedAt.Format(time.RFC3339)\<close> is the parameter \<open>Format_RFC3339\<close> of the
  methods below. \<^verbatim>\<open>slicer.GiB\<close> is declared in \<^verbatim>\<open>internal/slicer\<close>, which is not
  among the sources: it is the parameter \<open>GiB\<close>.
\<close>

type_synonym go_time = int

record SlicerCreateNodeRequest =
  cr_RamBytes :: int64
  cr_CPUs :: go_int
  cr_Persistent :: bool
  cr_DiskImage :: string
  cr_ImportUser :: string
  cr_SSHKeys :: "string list"
  cr_Userdata :: string
  cr_Tags :: "string list"
  cr_Secrets :: "string list"

record SlicerCreateNodeResponse =
  res_Hostname :: string
  res_IP :: string
  res_Arch :: string
  res_CreatedAt :: go_time

record SlicerNode =
  node_Hostname :: string
  node_IP :: string
  node_Arch :: string
  node_CreatedAt :: go_time
  node_CPUs :: go_int
  node_RamBytes :: int64
  node_Tags :: "string list"

record VMResourceModel =
  vm_ID :: tf_string
  vm_HostGroup :: tf_string
  vm_Hostname :: tf_string
  vm_IP :: tf_string
  vm_CPUs :: tf_int64
  vm_RamGB :: tf_int64
  vm_Persistent :: tf_bool
  vm_DiskImage :: tf_string
  vm_ImportUser :: tf_string
  vm_SSHKeys :: tf_list
  vm_Userdata :: tf_string
  vm_Tags :: tf_map
  vm_Secrets :: tf_list
  vm_Arch :: tf_string
  vm_CreatedAt :: tf_string

record VMDataSourceModel =
  vds_Hostname :: tf_string
  vds_IP :: tf_string
  vds_CPUs :: tf_int64
  vds_RamGB :: tf_int64
  vds_Arch :: tf_string
  vds_Tags :: tf_map
  vds_CreatedAt :: tf_string

record VMsFilterModel =
  filter_Tag :: tf_string

record VMsVMModel =
  vmm_Hostname :: tf_string
  vmm_IP :: tf_string
  vmm_CPUs :: tf_int64
  vmm_RamGB :: tf_int64
  vmm_Arch :: tf_string
  vmm_Tags :: tf_map
  vmm_CreatedAt :: tf_string

text \<open>
  The lists of objects of the \<^verbatim>\<open>slicer_vms\<close> data source: \<open>None\<close> is the null
  list.
\<close>

record VMsDataSourceModel =
  vms_Filter :: "VMsFilterModel list option"
  vms_VMs :: "VMsVMModel list option"
  vms_TotalCount :: tf_int64

text \<open>Go's \<^verbatim>\<open>/\<close> on \<^verbatim>\<open>int64\<close>: the quotient truncated towards zero.\<close>

definition int64_quo :: "int64 \<Rightarrow> int64 \<Rightarrow> int64" where
  "int64_quo a b = word_of_int (sint a sdiv sint b)"

text \<open>A Go \<^verbatim>\<open>map[string]string\<close>: its entries, with \<^verbatim>\<open>m[k] = v\<close> as
  \<^const>\<open>AList.update\<close>; the map it denotes is \<^const>\<open>map_of\<close> of the entries.\<close>

type_synonym go_map = "(string \<times> string) list"

definition MapValueFrom :: "go_map \<Rightarrow> tf_map" where
  "MapValueFrom m = MapValue (map (\<lambda>(k, v). (k, StringValue v)) m)"

subsection \<open>The pieces shared by create, read and the data sources\<close>

text \<open>
  \<^verbatim>\<open>ip := found.IP; if strings.Contains(ip, "/") { ip = strings.Split(ip, "/")[0] }\<close>
  (the comment in the source: parse IP, remove CIDR notation if present).
\<close>

definition parse_ip :: "string \<Rightarrow> string" where
  "parse_ip ip = (if Contains ip ''/'' then Split ip (CHR ''/'') ! 0 else ip)"

text \<open>
  The loop of \<^verbatim>\<open>Create\<close> over the tags map (lines 212--214), in the order
  \<^verbatim>\<open>range\<close> visits the entries: \<^verbatim>\<open>fmt.Sprintf("%s=%s", k, v)\<close> appended to
  \<^verbatim>\<open>createReq.Tags\<close>.
\<close>

fun append_tags :: "string list \<Rightarrow> (string \<times> string) list \<Rightarrow> string list" where
  "append_tags Tags [] = Tags"
| "append_tags Tags ((k, v) # rest) = append_tags (Tags @ [k @ ''='' @ v]) rest"

text \<open>
  The loop of \<^verbatim>\<open>Read\<close> and of the data sources over \<^verbatim>\<open>found.Tags\<close>
  (lines 308--313): \<^verbatim>\<open>parts := strings.SplitN(tag, "=", 2)\<close>, and
  \<^verbatim>\<open>tags[parts[0]] = parts[1]\<close> when there are two parts.
\<close>

fun parse_tags :: "go_map \<Rightarrow> string list \<Rightarrow> go_map" where
  "parse_tags tags [] = tags"
| "parse_tags tags (tag # rest) =
     (let parts = SplitN_2 tag (CHR ''='')
      in if length parts = 2
         then parse_tags (AList.update (parts ! 0) (parts ! 1) tags) rest
         else parse_tags tags rest)"

fun find_vm :: "string \<Rightarrow> SlicerNode list \<Rightarrow> SlicerNode option" where
  "find_vm hostname [] = None"
| "find_vm hostname (vm # vms) =
     (if node_Hostname vm = hostname then Some vm else find_vm hostname vms)"

subsection \<open>\<^verbatim>\<open>VMResource.Create\<close> (lines 164--256)\<close>

text \<open>
  The request as it stands after line 204, and the conversions of the three
  collections. The result of \<^verbatim>\<open>Create\<close> is the call of \<^verbatim>\<open>CreateVM\<close> it made
  (host group and request), if it made one, and the response.
\<close>

definition create_request_scalars ::
  "(int64 \<Rightarrow> int64) \<Rightarrow> VMResourceModel \<Rightarrow> SlicerCreateNodeRequest" where
  "create_request_scalars GiB data =
     (let createReq = \<lparr>cr_RamBytes = 0, cr_CPUs = 0,
                       cr_Persistent = ValueBool (vm_Persistent data),
                       cr_DiskImage = [], cr_ImportUser = [], cr_SSHKeys = [],
                       cr_Userdata = [], cr_Tags = [], cr_Secrets = []\<rparr>;
          createReq = (if \<not> Int64_IsNull (vm_CPUs data) \<and> 0 <s ValueInt64 (vm_CPUs data)
                       then createReq\<lparr>cr_CPUs := ValueInt64 (vm_CPUs data)\<rparr>
                       else createReq);
          createReq = (if \<not> Int64_IsNull (vm_RamGB data) \<and> 0 <s ValueInt64 (vm_RamGB data)
                       then createReq\<lparr>cr_RamBytes := GiB (ValueInt64 (vm_RamGB data))\<rparr>
                       else createReq);
          createReq = (if \<not> String_IsNull (vm_DiskImage data)
                       then createReq\<lparr>cr_DiskImage := ValueString (vm_DiskImage data)\<rparr>
                       else createReq);
          createReq = (if \<not> String_IsNull (vm_ImportUser data)
                       then createReq\<lparr>cr_ImportUser := ValueString (vm_ImportUser data)\<rparr>
                       else createReq);
          createReq = (if \<not> String_IsNull (vm_Userdata data)
                       then createReq\<lparr>cr_Userdata := ValueString (vm_Userdata data)\<rparr>
                       else createReq)
      in createReq)"

definition VMResource_Create ::
  "(int64 \<Rightarrow> int64) \<Rightarrow> (go_time \<Rightarrow> string) \<Rightarrow>
   (string \<Rightarrow> SlicerCreateNodeRequest \<Rightarrow> go_error + SlicerCreateNodeResponse) \<Rightarrow>
   diagnostics \<Rightarrow> VMResourceModel \<Rightarrow>
     (string \<times> SlicerCreateNodeRequest) option \<times> VMResourceModel response" where
  "VMResource_Create GiB Format_RFC3339 CreateVM plan_diags data =
     (if HasError plan_diags then (None, \<lparr>Diagnostics = plan_diags, State = NotWritten\<rparr>)
      else
        (let createReq = create_request_scalars GiB data;
             (d, sshKeys) = (if \<not> List_IsNull (vm_SSHKeys data)
                             then List_ElementsAs (vm_SSHKeys data) else ([], []));
             diags = plan_diags @ d
         in if HasError diags then (None, \<lparr>Diagnostics = diags, State = NotWritten\<rparr>)
            else
        (let createReq = (if \<not> List_IsNull (vm_SSHKeys data)
                          then createReq\<lparr>cr_SSHKeys := sshKeys\<rparr> else createReq);
             (d, tags) = (if \<not> Map_IsNull (vm_Tags data)
                          then Map_ElementsAs (vm_Tags data) else ([], []));
             diags = diags @ d
         in if HasError diags then (None, \<lparr>Diagnostics = diags, State = NotWritten\<rparr>)
            else
        (let createReq = createReq\<lparr>cr_Tags := append_tags (cr_Tags createReq) tags\<rparr>;
             (d, secrets) = (if \<not> List_IsNull (vm_Secrets data)
                             then List_ElementsAs (vm_Secrets data) else ([], []));
             diags = diags @ d
         in if HasError diags then (None, \<lparr>Diagnostics = diags, State = NotWritten\<rparr>)
            else
        (let createReq = (if \<not> List_IsNull (vm_Secrets data)
                          then createReq\<lparr>cr_Secrets := secrets\<rparr> else createReq);
             sent = Some (ValueString (vm_HostGroup data), createReq)
         in case CreateVM (ValueString (vm_HostGroup data)) createReq of
              Inl err \<Rightarrow>
                (sent, \<lparr>Diagnostics = AddError diags ''Client Error''
                                        (''Unable to create VM: '' @ err),
                        State = NotWritten\<rparr>)
            | Inr result \<Rightarrow>
                (sent, \<lparr>Diagnostics = diags,
                        State = Written (data
                          \<lparr>vm_ID := StringValue (res_Hostname result),
                           vm_Hostname := StringValue (res_Hostname result),
                           vm_IP := StringValue (parse_ip (res_IP result)),
                           vm_Arch := StringValue (res_Arch result),
                           vm_CreatedAt :=
                             StringValue (Format_RFC3339 (res_CreatedAt result))\<rparr>)\<rparr>))))))"

subsection \<open>\<^verbatim>\<open>VMResource.Read\<close> (lines 258--322)\<close>

definition VMResource_Read ::
  "(go_time \<Rightarrow> string) \<Rightarrow> (go_error + SlicerNode list) \<Rightarrow> diagnostics \<Rightarrow>
   VMResourceModel \<Rightarrow> VMResourceModel response" where
  "VMResource_Read Format_RFC3339 ListVMs state_diags data =
     (if HasError state_diags then \<lparr>Diagnostics = state_diags, State = NotWritten\<rparr>
      else
        (case ListVMs of
           Inl err \<Rightarrow>
             \<lparr>Diagnostics = AddError state_diags ''Client Error''
                               (''Unable to list VMs: '' @ err),
              State = NotWritten\<rparr>
         | Inr vms \<Rightarrow>
             (case find_vm (ValueString (vm_Hostname data)) vms of
                None \<Rightarrow> \<lparr>Diagnostics = state_diags, State = Removed\<rparr>
              | Some found \<Rightarrow>
                  (let data = data
                         \<lparr>vm_IP := StringValue (parse_ip (node_IP found)),
                          vm_Arch := StringValue (node_Arch found),
                          vm_CreatedAt := StringValue (Format_RFC3339 (node_CreatedAt found))\<rparr>;
                       data = (if 0 <s node_CPUs found
                               then data\<lparr>vm_CPUs := Int64Value (node_CPUs found)\<rparr>
                               else data);
                       data = (if 0 <s node_RamBytes found
                               then data\<lparr>vm_RamGB := Int64Value
                                      (int64_quo (node_RamBytes found) (1024 * 1024 * 1024))\<rparr>
                               else data);
                       data = (if length (node_Tags found) > 0
                               then data\<lparr>vm_Tags := MapValueFrom (parse_tags [] (node_Tags found))\<rparr>
                               else data)
                   in \<lparr>Diagnostics = state_diags, State = Written data\<rparr>))))"

subsection \<open>The data source \<^verbatim>\<open>slicer_vm\<close>: \<^verbatim>\<open>VMDataSource.Read\<close> (lines 101--179)\<close>

definition VMDataSource_Read ::
  "(go_time \<Rightarrow> string) \<Rightarrow> (go_error + SlicerNode list) \<Rightarrow> diagnostics \<Rightarrow>
   VMDataSourceModel \<Rightarrow> VMDataSourceModel response" where
  "VMDataSource_Read Format_RFC3339 ListVMs config_diags data =
     (if HasError config_diags then \<lparr>Diagnostics = config_diags, State = NotWritten\<rparr>
      else
        (case ListVMs of
           Inl err \<Rightarrow>
             \<lparr>Diagnostics = AddError config_diags ''Client Error''
                               (''Unable to list VMs: '' @ err),
              State = NotWritten\<rparr>
         | Inr vms \<Rightarrow>
             (case find_vm (ValueString (vds_Hostname data)) vms of
                None \<Rightarrow>
                  \<lparr>Diagnostics = AddError config_diags ''Not Found''
                     (''VM with hostname '' @ quote @ ValueString (vds_Hostname data) @ quote @
                      '' not found''),
                   State = NotWritten\<rparr>
              | Some found \<Rightarrow>
                  \<lparr>Diagnostics = config_diags,
                   State = Written (data
                     \<lparr>vds_IP := StringValue (parse_ip (node_IP found)),
                      vds_Arch := StringValue (node_Arch found),
                      vds_CreatedAt := StringValue (Format_RFC3339 (node_CreatedAt found)),
                      vds_CPUs := (if 0 <s node_CPUs found
                                   then Int64Value (node_CPUs found) else Int64Null),
                      vds_RamGB := (if 0 <s node_RamBytes found
                                    then Int64Value
                                      (int64_quo (node_RamBytes found) (1024 * 1024 * 1024))
                                    else Int64Null),
                      vds_Tags := (if length (node_Tags found) > 0
                                   then MapValueFrom (parse_tags [] (node_Tags found))
                                   else MapNull)\<rparr>)\<rparr>)))"

subsection \<open>The data source \<^verbatim>\<open>slicer_vms\<close>: \<^verbatim>\<open>VMsDataSource.Read\<close> and \<^verbatim>\<open>matchesFilters\<close>\<close>

fun tag_found :: "string \<Rightarrow> string list \<Rightarrow> bool" where
  "tag_found tagFilter [] = False"
| "tag_found tagFilter (tag # tags) =
     (if tag = tagFilter \<or> Contains tag tagFilter then True else tag_found tagFilter tags)"

fun filters_loop :: "SlicerNode \<Rightarrow> VMsFilterModel list \<Rightarrow> bool" where
  "filters_loop vm [] = True"
| "filters_loop vm (f # filters) =
     (if \<not> String_IsNull (filter_Tag f)
      then (if \<not> tag_found (ValueString (filter_Tag f)) (node_Tags vm) then False
            else filters_loop vm filters)
      else filters_loop vm filters)"

definition matchesFilters :: "SlicerNode \<Rightarrow> VMsFilterModel list \<Rightarrow> bool" where
  "matchesFilters vm filters = (if length filters = 0 then True else filters_loop vm filters)"

text \<open>The body of the conversion loop (lines 177--222 of the data source), for one VM.\<close>

definition vm_model :: "(go_time \<Rightarrow> string) \<Rightarrow> SlicerNode \<Rightarrow> VMsVMModel" where
  "vm_model Format_RFC3339 vm =
     \<lparr>vmm_Hostname = StringValue (node_Hostname vm),
      vmm_IP = StringValue (parse_ip (node_IP vm)),
      vmm_CPUs = (if 0 <s node_CPUs vm then Int64Value (node_CPUs vm) else Int64Null),
      vmm_RamGB = (if 0 <s node_RamBytes vm
                   then Int64Value (int64_quo (node_RamBytes vm) (1024 * 1024 * 1024))
                   else Int64Null),
      vmm_Arch = StringValue (node_Arch vm),
      vmm_Tags = (if length (node_Tags vm) > 0
                  then MapValueFrom (parse_tags [] (node_Tags vm)) else MapNull),
      vmm_CreatedAt = StringValue (Format_RFC3339 (node_CreatedAt vm))\<rparr>"

definition VMsDataSource_Read ::
  "(go_time \<Rightarrow> string) \<Rightarrow> (go_error + SlicerNode list) \<Rightarrow> diagnostics \<Rightarrow>
   VMsDataSourceModel \<Rightarrow> VMsDataSourceModel response" where
  "VMsDataSource_Read Format_RFC3339 ListVMs config_diags data =
     (if HasError config_diags then \<lparr>Diagnostics = config_diags, State = NotWritten\<rparr>
      else
        (let filters = (case vms_Filter data of None \<Rightarrow> [] | Some fs \<Rightarrow> fs)
         in case ListVMs of
              Inl err \<Rightarrow>
                \<lparr>Diagnostics = AddError config_diags ''Client Error''
                                  (''Unable to list VMs: '' @ err),
                 State = NotWritten\<rparr>
            | Inr vms \<Rightarrow>
                (let filteredVMs = filter (\<lambda>vm. matchesFilters vm filters) vms;
                     vmModels = map (vm_model Format_RFC3339) filteredVMs
                 in \<lparr>Diagnostics = config_diags,
                     State = Written (data
                       \<lparr>vms_VMs := Some vmModels,
                        vms_TotalCount := Int64Value (of_nat (length filteredVMs))\<rparr>)\<rparr>)))"

section \<open>Concrete inputs\<close>

text \<open>
  The inputs at which the theorems below are instantiated: the exec resource
  \<^verbatim>\<open>echo hi\<close> on \<^verbatim>\<open>host-1\<close>, a chunk that carries output only, a chunk that
  carries an exit code only, and a chunk that carries an error.
\<close>

definition echo_hi :: ExecResourceModel where
  "echo_hi =
     \<lparr>exec_ID = StringUnknown, exec_Hostname = StringValue ''host-1'',
      exec_Command = StringValue ''echo'', exec_Args = ListValue [StringValue ''hi''],
      exec_User = StringValue ''root'', exec_UID = Int64Value 0, exec_GID = Int64Value 0,
      exec_Workdir = StringNull, exec_Shell = StringNull, exec_Triggers = MapNull,
      exec_ExitCode = Int64Unknown, exec_Stdout = StringUnknown,
      exec_Stderr = StringUnknown\<rparr>"

definition output_chunk :: "string \<Rightarrow> string \<Rightarrow> ResultChunk" where
  "output_chunk out err =
     \<lparr>chunk_stdout = out, chunk_stderr = err, chunk_exit_code = None, chunk_error = []\<rparr>"

definition exit_chunk :: "go_int \<Rightarrow> ResultChunk" where
  "exit_chunk code =
     \<lparr>chunk_stdout = [], chunk_stderr = [], chunk_exit_code = Some code, chunk_error = []\<rparr>"

definition error_chunk :: "string \<Rightarrow> ResultChunk" where
  "error_chunk e =
     \<lparr>chunk_stdout = [], chunk_stderr = [], chunk_exit_code = None, chunk_error = e\<rparr>"

text \<open>A client whose \<^verbatim>\<open>Exec\<close> delivers the given chunks and closes the channel.\<close>

definition delivering :: "ResultChunk list \<Rightarrow> exec_client" where
  "delivering chunks = (\<lambda>hostname execReq. Inr (map decode_chunk chunks))"

text \<open>
  The file resource of the spec's scenario (content \<^verbatim>\<open>abc\<close> to \<^verbatim>\<open>/tmp/x\<close> on
  \<^verbatim>\<open>host-1\<close>), the same with a source file instead, with neither and with both; a
  world in which every call succeeds and the source file holds \<^verbatim>\<open>xyz\<close>; and a
  stand-in for the digest function with which the theorems are instantiated (they
  hold for every function in its place).
\<close>

definition abc_file :: FileResourceModel where
  "abc_file =
     \<lparr>file_ID = StringUnknown, file_Hostname = StringValue ''host-1'',
      file_Destination = StringValue ''/tmp/x'', file_Content = StringValue ''abc'',
      file_Source = StringNull, file_Permissions = StringValue ''0644'',
      file_Owner = Int64Value 0, file_Group = Int64Value 0,
      file_ContentHash = StringUnknown\<rparr>"

definition source_file :: FileResourceModel where
  "source_file = abc_file\<lparr>file_Content := StringNull, file_Source := StringValue ''in.txt''\<rparr>"

definition neither_file :: FileResourceModel where
  "neither_file = abc_file\<lparr>file_Content := StringNull\<rparr>"

definition both_file :: FileResourceModel where
  "both_file = abc_file\<lparr>file_Source := StringValue ''in.txt''\<rparr>"

definition calm_world :: file_world where
  "calm_world =
     \<lparr>os_ReadFile = (\<lambda>name. if name = ''in.txt'' then Inr ''xyz''
                               else Inl ''no such file or directory''),
      os_CreateTemp = Inr ''/tmp/slicer-file-1'',
      tmpFile_Write = (\<lambda>name content. None),
      client_CpToVM = (\<lambda>args. None),
      client_Exec = (\<lambda>hostname execReq. Inr [])\<rparr>"

definition toy_sum :: "string \<Rightarrow> string" where
  "toy_sum content = rev content"

text \<open>
  The VM of the README's example (two CPUs, 8 GB, two tags, one of them with a value
  that contains \<^verbatim>\<open>=\<close>), the same with \<^verbatim>\<open>cpus = 0\<close> and no \<^verbatim>\<open>ram_gb\<close>; a stand-in
  for \<^verbatim>\<open>slicer.GiB\<close> and one for the time format; a remote that accepts every
  create request; and the VM as the remote lists it.
\<close>

definition web_vm :: VMResourceModel where
  "web_vm =
     \<lparr>vm_ID = StringUnknown, vm_HostGroup = StringValue ''w1-medium'',
      vm_Hostname = StringUnknown, vm_IP = StringUnknown,
      vm_CPUs = Int64Value 2, vm_RamGB = Int64Value 8, vm_Persistent = BoolValue False,
      vm_DiskImage = StringNull, vm_ImportUser = StringNull, vm_SSHKeys = ListNull,
      vm_Userdata = StringNull,
      vm_Tags = MapValue [(''role'', StringValue ''k3s''), (''expr'', StringValue ''a=b'')],
      vm_Secrets = ListNull, vm_Arch = StringUnknown, vm_CreatedAt = StringUnknown\<rparr>"

definition default_vm :: VMResourceModel where
  "default_vm = web_vm\<lparr>vm_CPUs := Int64Value 0, vm_RamGB := Int64Null\<rparr>"

definition times_GiB :: "int64 \<Rightarrow> int64" where
  "times_GiB n = n * (1024 * 1024 * 1024)"

definition fixed_stamp :: "go_time \<Rightarrow> string" where
  "fixed_stamp t = ''2024-01-01T00:00:00Z''"

definition accepting ::
  "string \<Rightarrow> SlicerCreateNodeRequest \<Rightarrow> go_error + SlicerCreateNodeResponse" where
  "accepting hostGroup createReq =
     Inr \<lparr>res_Hostname = ''w1-medium-1'', res_IP = ''10.0.0.5/24'', res_Arch = ''amd64'',
          res_CreatedAt = 0\<rparr>"

definition listed_vm :: SlicerNode where
  "listed_vm =
     \<lparr>node_Hostname = ''w1-medium-1'', node_IP = ''10.0.0.5/24'', node_Arch = ''amd64'',
      node_CreatedAt = 0, node_CPUs = 2, node_RamBytes = 8589934592,
      node_Tags = [''role=k3s'', ''expr=a=b'']\<rparr>"

definition created_vm :: VMResourceModel where
  "created_vm =
     web_vm\<lparr>vm_ID := StringValue ''w1-medium-1'', vm_Hostname := StringValue ''w1-medium-1'',
            vm_IP := StringValue ''10.0.0.5'', vm_Arch := StringValue ''amd64'',
            vm_CreatedAt := StringValue ''2024-01-01T00:00:00Z''\<rparr>"

definition vm_lookup :: VMDataSourceModel where
  "vm_lookup =
     \<lparr>vds_Hostname = StringValue ''w1-medium-1'', vds_IP = StringUnknown,
      vds_CPUs = Int64Unknown, vds_RamGB = Int64Unknown, vds_Arch = StringUnknown,
      vds_Tags = MapUnknown, vds_CreatedAt = StringUnknown\<rparr>"

definition vms_lookup :: VMsDataSourceModel where
  "vms_lookup =
     \<lparr>vms_Filter = Some [\<lparr>filter_Tag = StringValue ''role=k3s''\<rparr>], vms_VMs = None,
      vms_TotalCount = Int64Unknown\<rparr>"

text \<open>
  The state of that VM after the remote changed it behind the provider's back: the
  address and the tags in the state are no longer those the remote lists. The same
  plan with an empty tags map, and the VM as the remote lists it when it has no tags.
\<close>

definition stale_vm :: VMResourceModel where
  "stale_vm =
     created_vm\<lparr>vm_IP := StringValue ''192.168.0.9'',
                vm_Tags := MapValue [(''old'', StringValue ''tag'')]\<rparr>"



text \<open>
  A secret in the state, with its value; the secret's configuration in the data
  source; and the secret as the remote lists it, in an answer that carries one more
  field than the metadata.
\<close>

definition stored_secret :: SecretResourceModel where
  "stored_secret =
     \<lparr>secret_ID = StringValue ''k'', secret_Name = StringValue ''k'',
      secret_Value = StringValue ''v'', secret_Permissions = StringValue ''0600'',
      secret_UID = Int64Value 0, secret_GID = Int64Value 0\<rparr>"

definition secret_lookup :: SecretDataSourceModel where
  "secret_lookup =
     \<lparr>sds_Name = StringValue ''k'', sds_Size = Int64Unknown,
      sds_Permissions = StringUnknown, sds_UID = Int64Unknown, sds_GID = Int64Unknown\<rparr>"

definition listed_secret :: "string Secret_scheme" where
  "listed_secret =
     \<lparr>Name = ''k'', Size = 1, Permissions = ''0640'', UID = 1000, GID = 1000,
      \<dots> = ''remote-side''\<rparr>"

section \<open>Properties of command execution\<close>

lemma range_resultChan_no_error:
  "list_all (\<lambda>r. Error r = []) cs \<Longrightarrow>
   range_resultChan so se ec cs =
     \<lparr>ret_stdout = so @ concat (map Stdout cs), ret_stderr = se @ concat (map Stderr cs),
      ret_exitCode = (if cs = [] then ec else ExitCode (last cs)),
      ret_err = None, ret_pending = []\<rparr>"
  by (induction cs arbitrary: so se ec) auto

lemma range_resultChan_error:
  "list_all (\<lambda>r. Error r = []) pre \<Longrightarrow> Error r \<noteq> [] \<Longrightarrow>
   range_resultChan so se ec (pre @ r # post) =
     \<lparr>ret_stdout = so @ concat (map Stdout pre), ret_stderr = se @ concat (map Stderr pre),
      ret_exitCode = ExitCode r,
      ret_err = Some (''exec error: '' @ Error r), ret_pending = post\<rparr>"
  by (induction pre arbitrary: so se ec) auto

lemma decode_chunk_simps:
  "Stdout (decode_chunk c) = chunk_stdout c"
  "Stderr (decode_chunk c) = chunk_stderr c"
  "Error (decode_chunk c) = chunk_error c"
  "ExitCode (decode_chunk c) = (case chunk_exit_code c of None \<Rightarrow> 0 | Some n \<Rightarrow> n)"
  by (simp_all add: decode_chunk_def)

text \<open>
  Claim C3. When the channel delivers \<open>chunks\<close> and none of them carries an error,
  \<^verbatim>\<open>executeCommand\<close> returns no error, its stdout is the concatenation of the stdout
  fragments in arrival order and its stderr the concatenation of the stderr
  fragments, each stream on its own. The result therefore does not depend on where
  the remote cut the output into chunks: any other error-free sequence \<open>chunks'\<close>
  whose fragments concatenate to the same two streams gives the same two strings.
\<close>

theorem exec_output_is_concatenation:
  assumes "client (ValueString (exec_Hostname data)) (build_exec_request data) = Inr chunks"
      and "list_all (\<lambda>r. Error r = []) chunks"
  shows "ret_err (executeCommand client data) = None
       \<and> ret_stdout (executeCommand client data) = concat (map Stdout chunks)
       \<and> ret_stderr (executeCommand client data) = concat (map Stderr chunks)
       \<and> (\<forall>chunks'. list_all (\<lambda>r. Error r = []) chunks'
             \<and> concat (map Stdout chunks') = concat (map Stdout chunks)
             \<and> concat (map Stderr chunks') = concat (map Stderr chunks)
           \<longrightarrow> ret_stdout (executeCommand (\<lambda>h q. Inr chunks') data)
                 = ret_stdout (executeCommand client data)
             \<and> ret_stderr (executeCommand (\<lambda>h q. Inr chunks') data)
                 = ret_stderr (executeCommand client data))"
  using assms by (simp add: executeCommand_def range_resultChan_no_error)

theorem exec_output_is_concatenation_witness:
  "list_all (\<lambda>r. Error r = [])
     (map decode_chunk [output_chunk ''h'' ''warn'', output_chunk ''i'' [], exit_chunk 0])
   \<and> ret_err (executeCommand
        (delivering [output_chunk ''h'' ''warn'', output_chunk ''i'' [], exit_chunk 0]) echo_hi)
       = None
   \<and> ret_stdout (executeCommand
        (delivering [output_chunk ''h'' ''warn'', output_chunk ''i'' [], exit_chunk 0]) echo_hi)
       = ''hi''
   \<and> ret_stderr (executeCommand
        (delivering [output_chunk ''h'' ''warn'', output_chunk ''i'' [], exit_chunk 0]) echo_hi)
       = ''warn''
   \<and> ret_stdout (executeCommand
        (\<lambda>h q. Inr (map decode_chunk [output_chunk ''hi'' ''wa'', output_chunk [] ''rn''])) echo_hi)
       = ret_stdout (executeCommand
        (delivering [output_chunk ''h'' ''warn'', output_chunk ''i'' [], exit_chunk 0]) echo_hi)"
proof -
  let ?chunks = "map decode_chunk [output_chunk ''h'' ''warn'', output_chunk ''i'' [], exit_chunk 0]"
  let ?chunks' = "map decode_chunk [output_chunk ''hi'' ''wa'', output_chunk [] ''rn'']"
  let ?client = "delivering [output_chunk ''h'' ''warn'', output_chunk ''i'' [], exit_chunk 0]"
  have delivered:
    "?client (ValueString (exec_Hostname echo_hi)) (build_exec_request echo_hi) = Inr ?chunks"
    by (simp add: delivering_def)
  have clean: "list_all (\<lambda>r. Error r = []) ?chunks"
    by (simp add: decode_chunk_simps output_chunk_def exit_chunk_def)
  have clean': "list_all (\<lambda>r. Error r = []) ?chunks'"
    by (simp add: decode_chunk_simps output_chunk_def)
  have same: "concat (map Stdout ?chunks') = concat (map Stdout ?chunks)
            \<and> concat (map Stderr ?chunks') = concat (map Stderr ?chunks)"
    by (simp add: decode_chunk_simps output_chunk_def exit_chunk_def)
  note main = exec_output_is_concatenation [of ?client echo_hi ?chunks, OF delivered clean]
  have out: "concat (map Stdout ?chunks) = ''hi''" "concat (map Stderr ?chunks) = ''warn''"
    by (simp_all add: decode_chunk_simps output_chunk_def exit_chunk_def)
  from main have err: "ret_err (executeCommand ?client echo_hi) = None"
    and stdout: "ret_stdout (executeCommand ?client echo_hi) = concat (map Stdout ?chunks)"
    and stderr: "ret_stderr (executeCommand ?client echo_hi) = concat (map Stderr ?chunks)"
    by blast+
  from main clean' same
  have rechunked: "ret_stdout (executeCommand (\<lambda>h q. Inr ?chunks') echo_hi)
                   = ret_stdout (executeCommand ?client echo_hi)"
    by blast
  show ?thesis
    using clean err rechunked by (simp only: stdout stderr out)
qed

lemma last_set_exit_code_last:
  "cs \<noteq> [] \<Longrightarrow> chunk_exit_code (last cs) = Some n \<Longrightarrow> last_set_exit_code prev cs = n"
  by (induction cs arbitrary: prev) (auto split: if_splits)

lemma delivering_echo_hi:
  "delivering cs (ValueString (exec_Hostname echo_hi)) (build_exec_request echo_hi)
     = Inr (map decode_chunk cs)"
  by (simp add: delivering_def)

lemmas chunk_defs = decode_chunk_def output_chunk_def exit_chunk_def error_chunk_def

text \<open>
  Claim C2, as stated, fails. The remote sends a chunk that sets exit code 3 and then
  a chunk that carries output and sets no exit code; the first line of the theorem
  shows the two values the channel delivers. No chunk carries an error, the exit code
  of the last chunk that set one is 3, and \<^verbatim>\<open>executeCommand\<close> returns 0: the
  assignment \<^verbatim>\<open>exitCode = result.ExitCode\<close> runs for every chunk, and the second
  chunk's field holds the zero value.
\<close>

theorem exit_code_reset_by_later_chunk:
  "map decode_chunk [exit_chunk 3, output_chunk ''late'' []]
     = [\<lparr>Stdout = [], Stderr = [], ExitCode = 3, Error = []\<rparr>,
        \<lparr>Stdout = ''late'', Stderr = [], ExitCode = 0, Error = []\<rparr>]
   \<and> ret_err (executeCommand (delivering [exit_chunk 3, output_chunk ''late'' []]) echo_hi) = None
   \<and> ret_exitCode (executeCommand (delivering [exit_chunk 3, output_chunk ''late'' []]) echo_hi)
       = 0
   \<and> last_set_exit_code 0 [exit_chunk 3, output_chunk ''late'' []] = 3
   \<and> ret_exitCode (executeCommand (delivering [exit_chunk 3, output_chunk ''late'' []]) echo_hi)
       \<noteq> last_set_exit_code 0 [exit_chunk 3, output_chunk ''late'' []]"
  by (simp add: executeCommand_def delivering_def chunk_defs)

text \<open>
  Claim C2, amended. When the channel delivers \<open>chunks\<close> and none of them carries an
  error, the exit code \<^verbatim>\<open>executeCommand\<close> returns is the \<^verbatim>\<open>ExitCode\<close> field of
  the last chunk received, and 0 when no chunk was received. It is the exit code of the
  last chunk that set one whenever that chunk is the last of the sequence.
\<close>

theorem exit_code_is_that_of_last_chunk:
  assumes "client (ValueString (exec_Hostname data)) (build_exec_request data) = Inr chunks"
      and "list_all (\<lambda>r. Error r = []) chunks"
  shows "ret_exitCode (executeCommand client data)
           = (if chunks = [] then 0 else ExitCode (last chunks))
       \<and> (\<forall>cs n. chunks = map decode_chunk cs \<and> cs \<noteq> [] \<and> chunk_exit_code (last cs) = Some n
            \<longrightarrow> ret_exitCode (executeCommand client data) = n
              \<and> last_set_exit_code 0 cs = n)"
proof -
  have code: "ret_exitCode (executeCommand client data)
                = (if chunks = [] then 0 else ExitCode (last chunks))"
    using assms by (simp add: executeCommand_def range_resultChan_no_error)
  have "ret_exitCode (executeCommand client data) = n \<and> last_set_exit_code 0 cs = n"
    if "chunks = map decode_chunk cs" "cs \<noteq> []" "chunk_exit_code (last cs) = Some n" for cs n
    using that code by (simp add: last_map decode_chunk_simps last_set_exit_code_last)
  with code show ?thesis by blast
qed

theorem exit_code_is_that_of_last_chunk_witness:
  "list_all (\<lambda>r. Error r = []) (map decode_chunk [output_chunk ''hi'' [], exit_chunk 3])
   \<and> ret_exitCode (executeCommand (delivering [output_chunk ''hi'' [], exit_chunk 3]) echo_hi) = 3
   \<and> last_set_exit_code 0 [output_chunk ''hi'' [], exit_chunk 3] = 3"
proof -
  let ?cs = "[output_chunk ''hi'' [], exit_chunk 3]"
  have clean: "list_all (\<lambda>r. Error r = []) (map decode_chunk ?cs)"
    by (simp add: chunk_defs)
  have last: "?cs \<noteq> [] \<and> chunk_exit_code (last ?cs) = Some 3"
    by (simp add: chunk_defs)
  from exit_code_is_that_of_last_chunk
         [of "delivering ?cs" echo_hi "map decode_chunk ?cs", OF delivering_echo_hi clean] last
  have "ret_exitCode (executeCommand (delivering ?cs) echo_hi) = 3
      \<and> last_set_exit_code 0 ?cs = 3"
    by blast
  with clean show ?thesis by blast
qed




text \<open>
  Claim C5: after a chunk with a non-empty error string the consumer still drains the
  remaining chunks, and it surfaces the carried error string as the operation's
  error. \<^verbatim>\<open>executeCommand\<close> does the second and not the first. At the input below
  the remote sends output, then a chunk with the error \<^verbatim>\<open>boom\<close>, then two more
  chunks. \<^verbatim>\<open>executeCommand\<close> returns the error at the error chunk, and the two
  chunks after it are never received and stay on the channel. The loop of
  \<^verbatim>\<open>FileResource.Delete\<close> over a channel of the same kind (its comment: drain the
  channel), run on the same chunks, leaves none, and so does \<^verbatim>\<open>executeCommand\<close>
  itself when no chunk carries an error.
\<close>

theorem exec_leaves_chunks_after_error:
  "ret_err (executeCommand
     (delivering [output_chunk ''a'' [], error_chunk ''boom'', output_chunk ''late'' [],
                  exit_chunk 1]) echo_hi) = Some ''exec error: boom''
   \<and> ret_pending (executeCommand
     (delivering [output_chunk ''a'' [], error_chunk ''boom'', output_chunk ''late'' [],
                  exit_chunk 1]) echo_hi)
       = [decode_chunk (output_chunk ''late'' []), decode_chunk (exit_chunk 1)]
   \<and> ret_pending (executeCommand
     (delivering [output_chunk ''a'' [], error_chunk ''boom'', output_chunk ''late'' [],
                  exit_chunk 1]) echo_hi) \<noteq> []
   \<and> drain (map decode_chunk [output_chunk ''a'' [], error_chunk ''boom'',
                                 output_chunk ''late'' [], exit_chunk 1]) = []
   \<and> ret_pending (executeCommand
     (delivering [output_chunk ''a'' [], output_chunk ''late'' [], exit_chunk 1]) echo_hi) = []"
  by (simp add: executeCommand_def delivering_def chunk_defs)

text \<open>
  The same at every input: when the channel delivers the error-free chunks \<open>pre\<close>,
  then a chunk \<open>r\<close> with a non-empty error string, then the chunks \<open>post\<close>,
  \<^verbatim>\<open>executeCommand\<close> returns the carried error string behind the prefix
  \<^verbatim>\<open>exec error: \<close>, and the chunks \<open>post\<close> are left on the channel.
\<close>

lemma executeCommand_stops_at_error:
  assumes "client (ValueString (exec_Hostname data)) (build_exec_request data)
             = Inr (pre @ r # post)"
      and "list_all (\<lambda>r. Error r = []) pre"
      and "Error r \<noteq> []"
  shows "ret_err (executeCommand client data) = Some (''exec error: '' @ Error r)
       \<and> ret_pending (executeCommand client data) = post"
  using assms by (simp add: executeCommand_def range_resultChan_error)

section \<open>Properties of file transfer\<close>

lemma HasError_append:
  "HasError (ds @ es) = (HasError ds \<or> HasError es)"
  by (induction ds) auto

lemma HasError_AddError:
  "HasError (AddError ds summary detail)"
  by (simp add: AddError_def HasError_append)

text \<open>The events of \<^verbatim>\<open>copyFile\<close> start with the read, if any, and the digest.\<close>

lemma copyFile_events:
  assumes "file_payload w data = Inr c"
  shows "\<exists>after. fst (copyFile Sum256 w data)
           = (if String_IsNull (file_Content data)
              then [EvReadFile (ValueString (file_Source data))] else [])
             @ EvSum256 c # after"
proof (cases "String_IsNull (file_Content data)")
  case True
  with assms have "os_ReadFile w (ValueString (file_Source data)) = Inr c"
    by (simp add: file_payload_def)
  with True show ?thesis
    by (simp add: copyFile_def Let_def split: sum.split option.split)
next
  case False
  with assms have "ValueString (file_Content data) = c"
    by (simp add: file_payload_def)
  with False show ?thesis
    by (simp add: copyFile_def Let_def split: sum.split option.split)
qed

text \<open>What \<^verbatim>\<open>copyFile\<close> returns, by the answers of the world.\<close>

lemma copyFile_returns:
  assumes "file_payload w data = Inr c"
  shows "snd (copyFile Sum256 w data)
           = (case os_CreateTemp w of
                Inl err \<Rightarrow> Inl (''failed to create temp file: '' @ err)
              | Inr tmpFile \<Rightarrow>
                  (case tmpFile_Write w tmpFile c of
                     Some err \<Rightarrow> Inl (''failed to write temp file: '' @ err)
                   | None \<Rightarrow>
                       (case client_CpToVM w
                               \<lparr>cp_vmName = ValueString (file_Hostname data),
                                cp_localPath = tmpFile,
                                cp_vmPath = ValueString (file_Destination data),
                                cp_uid = ucast (ValueInt64 (file_Owner data)),
                                cp_gid = ucast (ValueInt64 (file_Group data)),
                                cp_permissions = ValueString (file_Permissions data),
                                cp_mode = ''binary''\<rparr> of
                          Some err \<Rightarrow> Inl (''failed to copy file to VM: '' @ err)
                        | None \<Rightarrow> Inr (Sprintf_x (Sum256 c)))))"
proof (cases "String_IsNull (file_Content data)")
  case True
  with assms have "os_ReadFile w (ValueString (file_Source data)) = Inr c"
    by (simp add: file_payload_def)
  with True show ?thesis
    by (simp add: copyFile_def Let_def split: sum.split option.split)
next
  case False
  with assms have "ValueString (file_Content data) = c"
    by (simp add: file_payload_def)
  with False show ?thesis
    by (simp add: copyFile_def Let_def split: sum.split option.split)
qed

lemma copyFile_result:
  assumes "file_payload w data = Inr c"
      and "snd (copyFile Sum256 w data) = Inr h"
  shows "h = Sprintf_x (Sum256 c)"
  using assms(2) unfolding copyFile_returns [OF assms(1)]
  by (simp split: sum.splits option.splits)

lemma copyFile_succeeds:
  assumes "file_payload w data = Inr c"
      and "os_CreateTemp w = Inr tmpFile"
      and "tmpFile_Write w tmpFile c = None"
      and "client_CpToVM w
             \<lparr>cp_vmName = ValueString (file_Hostname data), cp_localPath = tmpFile,
              cp_vmPath = ValueString (file_Destination data),
              cp_uid = ucast (ValueInt64 (file_Owner data)),
              cp_gid = ucast (ValueInt64 (file_Group data)),
              cp_permissions = ValueString (file_Permissions data),
              cp_mode = ''binary''\<rparr> = None"
  shows "snd (copyFile Sum256 w data) = Inr (Sprintf_x (Sum256 c))"
  unfolding copyFile_returns [OF assms(1)] using assms(2-4) by simp

lemma Create_stores_result:
  assumes "\<not> HasError plan_diags"
      and "String_IsNull (file_Content data) \<noteq> String_IsNull (file_Source data)"
      and "snd (copyFile Sum256 w data) = Inr h"
  shows "State (snd (FileResource_Create Sum256 w plan_diags data))
           = Written (data
               \<lparr>file_ID := StringValue (ValueString (file_Hostname data) @ '':'' @
                                        ValueString (file_Destination data)),
                file_ContentHash := StringValue h\<rparr>)"
  using assms
  by (cases "copyFile Sum256 w data") (auto simp add: FileResource_Create_def)

lemma Update_stores_result:
  assumes "\<not> HasError plan_diags"
      and "snd (copyFile Sum256 w data) = Inr h"
  shows "State (snd (FileResource_Update Sum256 w plan_diags data))
           = Written (data\<lparr>file_ContentHash := StringValue h\<rparr>)"
  using assms
  by (cases "copyFile Sum256 w data") (auto simp add: FileResource_Update_def)

text \<open>
  Claim C1. Let \<open>c\<close> be the payload of a file resource: the bytes of the content
  attribute or, when that is null, the bytes read from the source file. Then
  \<^item> \<^verbatim>\<open>copyFile\<close> computes the digest of exactly \<open>c\<close>, and it does so before any
    transfer: in its sequence of calls, no \<^verbatim>\<open>CpToVM\<close> precedes the digest of \<open>c\<close>;
  \<^item> whatever \<^verbatim>\<open>copyFile\<close> returns as content hash is the lower-case hexadecimal
    form of that digest, and it returns it whenever the temporary file and the
    transfer succeed;
  \<^item> \<^verbatim>\<open>Create\<close> and \<^verbatim>\<open>Update\<close> store that string as \<^verbatim>\<open>content_hash\<close>.

  The value is a function of \<open>c\<close> alone: the mode is the constant \<^verbatim>\<open>binary\<close> in the
  one call of \<^verbatim>\<open>CpToVM\<close>, which comes after the digest, and whatever the transfer
  behind \<^verbatim>\<open>CpToVM\<close> does with its arguments (the last line of the theorem replaces
  it by any \<open>transfer\<close>), a content hash that is returned is the same string.
\<close>

theorem copyFile_returns_digest_of_payload:
  assumes "file_payload w data = Inr c"
  shows "(\<exists>before after. fst (copyFile Sum256 w data) = before @ EvSum256 c # after
            \<and> \<not> list_ex is_CpToVM before)
       \<and> (\<forall>h. snd (copyFile Sum256 w data) = Inr h \<longrightarrow> h = Sprintf_x (Sum256 c))
       \<and> (\<forall>tmpFile. os_CreateTemp w = Inr tmpFile \<and> tmpFile_Write w tmpFile c = None
             \<and> client_CpToVM w
                 \<lparr>cp_vmName = ValueString (file_Hostname data), cp_localPath = tmpFile,
                  cp_vmPath = ValueString (file_Destination data),
                  cp_uid = ucast (ValueInt64 (file_Owner data)),
                  cp_gid = ucast (ValueInt64 (file_Group data)),
                  cp_permissions = ValueString (file_Permissions data),
                  cp_mode = ''binary''\<rparr> = None
            \<longrightarrow> snd (copyFile Sum256 w data) = Inr (Sprintf_x (Sum256 c)))
       \<and> (\<forall>plan_diags h. \<not> HasError plan_diags
             \<and> String_IsNull (file_Content data) \<noteq> String_IsNull (file_Source data)
             \<and> snd (copyFile Sum256 w data) = Inr h
            \<longrightarrow> State (snd (FileResource_Create Sum256 w plan_diags data))
                  = Written (data
                      \<lparr>file_ID := StringValue (ValueString (file_Hostname data) @ '':'' @
                                               ValueString (file_Destination data)),
                       file_ContentHash := StringValue (Sprintf_x (Sum256 c))\<rparr>))
       \<and> (\<forall>plan_diags h. \<not> HasError plan_diags \<and> snd (copyFile Sum256 w data) = Inr h
            \<longrightarrow> State (snd (FileResource_Update Sum256 w plan_diags data))
                  = Written (data\<lparr>file_ContentHash := StringValue (Sprintf_x (Sum256 c))\<rparr>))
       \<and> (\<forall>transfer h. snd (copyFile Sum256 (w\<lparr>client_CpToVM := transfer\<rparr>) data) = Inr h
            \<longrightarrow> h = Sprintf_x (Sum256 c))"
proof (intro conjI allI impI)
  from copyFile_events [OF assms, of Sum256]
  obtain after where
    "fst (copyFile Sum256 w data)
       = (if String_IsNull (file_Content data)
          then [EvReadFile (ValueString (file_Source data))] else [])
         @ EvSum256 c # after"
    by blast
  moreover have "\<not> list_ex is_CpToVM
    (if String_IsNull (file_Content data)
     then [EvReadFile (ValueString (file_Source data))] else [])"
    by simp
  ultimately show "\<exists>before after. fst (copyFile Sum256 w data) = before @ EvSum256 c # after
                     \<and> \<not> list_ex is_CpToVM before"
    by blast
next
  fix h assume "snd (copyFile Sum256 w data) = Inr h"
  with assms show "h = Sprintf_x (Sum256 c)"
    by (rule copyFile_result)
next
  fix tmpFile
  assume "os_CreateTemp w = Inr tmpFile \<and> tmpFile_Write w tmpFile c = None
        \<and> client_CpToVM w
            \<lparr>cp_vmName = ValueString (file_Hostname data), cp_localPath = tmpFile,
             cp_vmPath = ValueString (file_Destination data),
             cp_uid = ucast (ValueInt64 (file_Owner data)),
             cp_gid = ucast (ValueInt64 (file_Group data)),
             cp_permissions = ValueString (file_Permissions data),
             cp_mode = ''binary''\<rparr> = None"
  with assms show "snd (copyFile Sum256 w data) = Inr (Sprintf_x (Sum256 c))"
    by (simp add: copyFile_succeeds)
next
  fix plan_diags h
  assume a: "\<not> HasError plan_diags
           \<and> String_IsNull (file_Content data) \<noteq> String_IsNull (file_Source data)
           \<and> snd (copyFile Sum256 w data) = Inr h"
  with assms have "h = Sprintf_x (Sum256 c)"
    by (simp add: copyFile_result)
  with a show "State (snd (FileResource_Create Sum256 w plan_diags data))
                 = Written (data
                     \<lparr>file_ID := StringValue (ValueString (file_Hostname data) @ '':'' @
                                              ValueString (file_Destination data)),
                      file_ContentHash := StringValue (Sprintf_x (Sum256 c))\<rparr>)"
    by (simp add: Create_stores_result)
next
  fix plan_diags h
  assume a: "\<not> HasError plan_diags \<and> snd (copyFile Sum256 w data) = Inr h"
  with assms have "h = Sprintf_x (Sum256 c)"
    by (simp add: copyFile_result)
  with a show "State (snd (FileResource_Update Sum256 w plan_diags data))
                 = Written (data\<lparr>file_ContentHash := StringValue (Sprintf_x (Sum256 c))\<rparr>)"
    by (simp add: Update_stores_result)
next
  fix transfer h
  assume returned: "snd (copyFile Sum256 (w\<lparr>client_CpToVM := transfer\<rparr>) data) = Inr h"
  have "file_payload (w\<lparr>client_CpToVM := transfer\<rparr>) data = file_payload w data"
    by (simp add: file_payload_def)
  with assms have "file_payload (w\<lparr>client_CpToVM := transfer\<rparr>) data = Inr c"
    by simp
  from this returned show "h = Sprintf_x (Sum256 c)"
    by (rule copyFile_result)
qed

lemma calm_world_simps:
  "os_ReadFile calm_world ''in.txt'' = Inr ''xyz''"
  "os_CreateTemp calm_world = Inr ''/tmp/slicer-file-1''"
  "tmpFile_Write calm_world name content = None"
  "client_CpToVM calm_world args = None"
  by (simp_all add: calm_world_def)

theorem copyFile_returns_digest_of_payload_witness:
  "file_payload calm_world source_file = Inr ''xyz''
   \<and> snd (copyFile toy_sum calm_world source_file) = Inr ''7a7978''
   \<and> State (snd (FileResource_Create toy_sum calm_world [] source_file))
       = Written (source_file\<lparr>file_ID := StringValue ''host-1:/tmp/x'',
                              file_ContentHash := StringValue ''7a7978''\<rparr>)
   \<and> State (snd (FileResource_Update toy_sum calm_world [] source_file))
       = Written (source_file\<lparr>file_ContentHash := StringValue ''7a7978''\<rparr>)"
proof -
  have payload: "file_payload calm_world source_file = Inr ''xyz''"
    by (simp add: file_payload_def source_file_def abc_file_def calm_world_simps)
  have digest: "Sprintf_x (toy_sum ''xyz'') = ''7a7978''"
    by (simp add: Sprintf_x_def toy_sum_def hex_byte_def hex_digit_def)
  have one: "String_IsNull (file_Content source_file) \<noteq> String_IsNull (file_Source source_file)"
    by (simp add: source_file_def abc_file_def)
  have fields: "ValueString (file_Hostname source_file) @ '':'' @
                ValueString (file_Destination source_file) = ''host-1:/tmp/x''"
    by (simp add: source_file_def abc_file_def)
  note main = copyFile_returns_digest_of_payload [OF payload, of toy_sum]
  note succeeds = main [THEN conjunct2, THEN conjunct2, THEN conjunct1, rule_format]
  note creates = main [THEN conjunct2, THEN conjunct2, THEN conjunct2, THEN conjunct1,
                       rule_format]
  note updates = main [THEN conjunct2, THEN conjunct2, THEN conjunct2, THEN conjunct2,
                       THEN conjunct1, rule_format]
  have "snd (copyFile toy_sum calm_world source_file) = Inr (Sprintf_x (toy_sum ''xyz''))"
    by (rule succeeds [of "''/tmp/slicer-file-1''"]) (simp add: calm_world_simps)
  then have result: "snd (copyFile toy_sum calm_world source_file) = Inr ''7a7978''"
    by (simp only: digest)
  have no_diag: "\<not> HasError []"
    by simp
  have "State (snd (FileResource_Create toy_sum calm_world [] source_file))
          = Written (source_file
              \<lparr>file_ID := StringValue (ValueString (file_Hostname source_file) @ '':'' @
                                       ValueString (file_Destination source_file)),
               file_ContentHash := StringValue (Sprintf_x (toy_sum ''xyz''))\<rparr>)"
    using no_diag one result by (intro creates conjI)
  then have created: "State (snd (FileResource_Create toy_sum calm_world [] source_file))
          = Written (source_file\<lparr>file_ID := StringValue ''host-1:/tmp/x'',
                                 file_ContentHash := StringValue ''7a7978''\<rparr>)"
    by (simp only: digest fields)
  have "State (snd (FileResource_Update toy_sum calm_world [] source_file))
          = Written (source_file\<lparr>file_ContentHash := StringValue (Sprintf_x (toy_sum ''xyz''))\<rparr>)"
    using no_diag result by (intro updates conjI)
  then have updated: "State (snd (FileResource_Update toy_sum calm_world [] source_file))
          = Written (source_file\<lparr>file_ContentHash := StringValue ''7a7978''\<rparr>)"
    by (simp only: digest)
  show ?thesis
    by (intro conjI payload result created updated)
qed

text \<open>
  Claim C10. When the content and the source attribute are both null or both
  non-null, \<^verbatim>\<open>FileResource.Create\<close> reports an error and returns before anything
  else happens: it makes no call at all (nothing is read, hashed or written,
  \<^verbatim>\<open>CpToVM\<close> is not called) and it writes no state.
\<close>

theorem Create_rejects_neither_and_both:
  assumes "String_IsNull (file_Content data) = String_IsNull (file_Source data)"
  shows "fst (FileResource_Create Sum256 w plan_diags data) = []
       \<and> HasError (Diagnostics (snd (FileResource_Create Sum256 w plan_diags data)))
       \<and> State (snd (FileResource_Create Sum256 w plan_diags data)) = NotWritten"
  using assms by (auto simp add: FileResource_Create_def HasError_AddError)

theorem Create_rejects_neither_and_both_witness:
  "String_IsNull (file_Content neither_file) = String_IsNull (file_Source neither_file)
   \<and> String_IsNull (file_Content both_file) = String_IsNull (file_Source both_file)
   \<and> FileResource_Create toy_sum calm_world [] neither_file
       = ([], \<lparr>Diagnostics =
                 [\<lparr>diag_severity = SeverityError, diag_summary = ''Missing File Content'',
                   diag_detail = ''Either '' @ quote @ ''content'' @ quote @ '' or '' @ quote @
                                 ''source'' @ quote @ '' must be specified.''\<rparr>],
               State = NotWritten\<rparr>)
   \<and> fst (FileResource_Create toy_sum calm_world [] both_file) = []
   \<and> State (snd (FileResource_Create toy_sum calm_world [] both_file)) = NotWritten"
proof -
  have neither:
    "String_IsNull (file_Content neither_file) = String_IsNull (file_Source neither_file)"
    by (simp add: neither_file_def abc_file_def)
  have both: "String_IsNull (file_Content both_file) = String_IsNull (file_Source both_file)"
    by (simp add: both_file_def abc_file_def)
  have report: "FileResource_Create toy_sum calm_world [] neither_file
       = ([], \<lparr>Diagnostics =
                 [\<lparr>diag_severity = SeverityError, diag_summary = ''Missing File Content'',
                   diag_detail = ''Either '' @ quote @ ''content'' @ quote @ '' or '' @ quote @
                                 ''source'' @ quote @ '' must be specified.''\<rparr>],
               State = NotWritten\<rparr>)"
    by (simp add: FileResource_Create_def neither_file_def abc_file_def AddError_def)
  note rejected = Create_rejects_neither_and_both [OF both, of toy_sum calm_world "[]"]
  show ?thesis
    by (intro conjI neither both report rejected [THEN conjunct1]
              rejected [THEN conjunct2, THEN conjunct2])
qed

section \<open>Properties of secrets\<close>

lemma find_secret_truncate:
  "find_secret name (map Secret.truncate secrets)
     = map_option Secret.truncate (find_secret name secrets)"
  by (induction secrets) (auto simp add: Secret.truncate_def)

lemma SecretResource_Read_truncate:
  "SecretResource_Read ListSecrets state_diags data
     = SecretResource_Read (map_sum id (map Secret.truncate) ListSecrets) state_diags data"
  by (cases ListSecrets)
     (auto simp add: SecretResource_Read_def find_secret_truncate Secret.truncate_def
           split: option.splits)

lemma SecretDataSource_Read_truncate:
  "SecretDataSource_Read ListSecrets config_diags data
     = SecretDataSource_Read (map_sum id (map Secret.truncate) ListSecrets) config_diags data"
  by (cases ListSecrets)
     (auto simp add: SecretDataSource_Read_def find_secret_truncate Secret.truncate_def
           split: option.splits)

lemma SecretResource_Read_written:
  assumes "State (SecretResource_Read ListSecrets state_diags data) = Written s"
  shows "\<exists>secrets found. ListSecrets = Inr secrets
           \<and> find_secret (ValueString (secret_Name data)) secrets = Some found
           \<and> s = data\<lparr>secret_Permissions := StringValue (Permissions found),
                       secret_UID := Int64Value (ucast (UID found)),
                       secret_GID := Int64Value (ucast (GID found))\<rparr>"
  using assms
  by (auto simp add: SecretResource_Read_def split: if_splits sum.splits option.splits)

lemma SecretDataSource_Read_written:
  assumes "State (SecretDataSource_Read ListSecrets config_diags data) = Written s"
  shows "\<exists>secrets found. ListSecrets = Inr secrets
           \<and> find_secret (ValueString (sds_Name data)) secrets = Some found
           \<and> s = \<lparr>sds_Name = sds_Name data, sds_Size = Int64Value (Size found),
                  sds_Permissions = StringValue (Permissions found),
                  sds_UID = Int64Value (ucast (UID found)),
                  sds_GID = Int64Value (ucast (GID found))\<rparr>"
  using assms
  by (auto simp add: SecretDataSource_Read_def split: if_splits sum.splits option.splits)

text \<open>
  Claim C6. A read of a secret neither obtains the value from the remote nor writes
  one into its result.
  \<^item> Both reads give the same response for any two answers of \<^verbatim>\<open>ListSecrets\<close> that
    agree on name, size, permissions, uid and gid of each secret: whatever else the
    remote's answer carries (its \<open>more\<close> part, cut off by \<open>Secret.truncate\<close>) does
    not reach the result.
  \<^item> The state \<^verbatim>\<open>SecretResource.Read\<close> writes is the prior state with permissions,
    uid and gid replaced by those of the secret found; the value, the id and the name
    are the prior state's.
  \<^item> The state the data source writes consists of the configured name and the size,
    permissions, uid and gid of the secret found; the model has no other field.
\<close>

theorem secret_reads_never_carry_the_value:
  "SecretResource_Read ListSecrets diags data
     = SecretResource_Read (map_sum id (map Secret.truncate) ListSecrets) diags data
   \<and> SecretDataSource_Read ListSecrets diags config
     = SecretDataSource_Read (map_sum id (map Secret.truncate) ListSecrets) diags config
   \<and> (\<forall>s. State (SecretResource_Read ListSecrets diags data) = Written s \<longrightarrow>
         secret_Value s = secret_Value data
       \<and> secret_ID s = secret_ID data
       \<and> secret_Name s = secret_Name data
       \<and> (\<exists>secrets found. ListSecrets = Inr secrets
             \<and> find_secret (ValueString (secret_Name data)) secrets = Some found
             \<and> s = data\<lparr>secret_Permissions := StringValue (Permissions found),
                         secret_UID := Int64Value (ucast (UID found)),
                         secret_GID := Int64Value (ucast (GID found))\<rparr>))
   \<and> (\<forall>s. State (SecretDataSource_Read ListSecrets diags config) = Written s \<longrightarrow>
         (\<exists>secrets found. ListSecrets = Inr secrets
             \<and> find_secret (ValueString (sds_Name config)) secrets = Some found
             \<and> s = \<lparr>sds_Name = sds_Name config, sds_Size = Int64Value (Size found),
                    sds_Permissions = StringValue (Permissions found),
                    sds_UID = Int64Value (ucast (UID found)),
                    sds_GID = Int64Value (ucast (GID found))\<rparr>))"
proof (intro conjI allI impI)
  show "SecretResource_Read ListSecrets diags data
          = SecretResource_Read (map_sum id (map Secret.truncate) ListSecrets) diags data"
    by (rule SecretResource_Read_truncate)
  show "SecretDataSource_Read ListSecrets diags config
          = SecretDataSource_Read (map_sum id (map Secret.truncate) ListSecrets) diags config"
    by (rule SecretDataSource_Read_truncate)
next
  fix s assume written: "State (SecretResource_Read ListSecrets diags data) = Written s"
  from SecretResource_Read_written [OF written]
  obtain secrets found where found: "ListSecrets = Inr secrets"
      "find_secret (ValueString (secret_Name data)) secrets = Some found"
      "s = data\<lparr>secret_Permissions := StringValue (Permissions found),
                 secret_UID := Int64Value (ucast (UID found)),
                 secret_GID := Int64Value (ucast (GID found))\<rparr>"
    by blast
  from found(3) show "secret_Value s = secret_Value data" by simp
  from found(3) show "secret_ID s = secret_ID data" by simp
  from found(3) show "secret_Name s = secret_Name data" by simp
  from found show "\<exists>secrets found. ListSecrets = Inr secrets
      \<and> find_secret (ValueString (secret_Name data)) secrets = Some found
      \<and> s = data\<lparr>secret_Permissions := StringValue (Permissions found),
                  secret_UID := Int64Value (ucast (UID found)),
                  secret_GID := Int64Value (ucast (GID found))\<rparr>"
    by blast
next
  fix s assume "State (SecretDataSource_Read ListSecrets diags config) = Written s"
  then show "\<exists>secrets found. ListSecrets = Inr secrets
      \<and> find_secret (ValueString (sds_Name config)) secrets = Some found
      \<and> s = \<lparr>sds_Name = sds_Name config, sds_Size = Int64Value (Size found),
             sds_Permissions = StringValue (Permissions found),
             sds_UID = Int64Value (ucast (UID found)),
             sds_GID = Int64Value (ucast (GID found))\<rparr>"
    by (rule SecretDataSource_Read_written)
qed

theorem secret_reads_never_carry_the_value_witness:
  "State (SecretResource_Read (Inr [listed_secret]) [] stored_secret)
     = Written (stored_secret\<lparr>secret_Permissions := StringValue ''0640'',
                              secret_UID := Int64Value 1000,
                              secret_GID := Int64Value 1000\<rparr>)
   \<and> secret_Value (stored_secret\<lparr>secret_Permissions := StringValue ''0640'',
                                  secret_UID := Int64Value 1000,
                                  secret_GID := Int64Value 1000\<rparr>) = StringValue ''v''
   \<and> State (SecretDataSource_Read (Inr [listed_secret]) [] secret_lookup)
     = Written \<lparr>sds_Name = StringValue ''k'', sds_Size = Int64Value 1,
                sds_Permissions = StringValue ''0640'', sds_UID = Int64Value 1000,
                sds_GID = Int64Value 1000\<rparr>
   \<and> SecretResource_Read (Inr [listed_secret]) [] stored_secret
     = SecretResource_Read (Inr [Secret.truncate listed_secret]) [] stored_secret"
proof -
  let ?s = "stored_secret\<lparr>secret_Permissions := StringValue ''0640'',
                          secret_UID := Int64Value 1000, secret_GID := Int64Value 1000\<rparr>"
  have read: "State (SecretResource_Read (Inr [listed_secret]) [] stored_secret) = Written ?s"
    by (simp add: SecretResource_Read_def listed_secret_def stored_secret_def)
  have lookup: "State (SecretDataSource_Read (Inr [listed_secret]) [] secret_lookup)
     = Written \<lparr>sds_Name = StringValue ''k'', sds_Size = Int64Value 1,
                sds_Permissions = StringValue ''0640'', sds_UID = Int64Value 1000,
                sds_GID = Int64Value 1000\<rparr>"
    by (simp add: SecretDataSource_Read_def listed_secret_def secret_lookup_def)
  note main = secret_reads_never_carry_the_value
                [of "Inr [listed_secret]" "[]" stored_secret secret_lookup]
  from main have cut: "SecretResource_Read (Inr [listed_secret]) [] stored_secret
     = SecretResource_Read (Inr [Secret.truncate listed_secret]) [] stored_secret"
    by simp
  from main [THEN conjunct2, THEN conjunct2, THEN conjunct1, rule_format, OF read]
  have "secret_Value ?s = secret_Value stored_secret"
    by (rule conjunct1)
  then have kept: "secret_Value ?s = StringValue ''v''"
    by (simp add: stored_secret_def)
  show ?thesis
    by (intro conjI read kept lookup cut)
qed

section \<open>Properties of virtual machines\<close>

subsection \<open>The string functions\<close>

lemma HasPrefix_single:
  "HasPrefix s [c] = (\<exists>rest. s = c # rest)"
  by (cases s) auto

lemma Contains_single:
  "Contains s [c] = (c \<in> set s)"
  by (induction s) (auto simp add: HasPrefix_single)

lemma Split_not_empty:
  "Split s sep \<noteq> []"
  by (induction s) (auto split: list.splits)

lemma hd_Split:
  "hd (Split s sep) = takeWhile (\<lambda>c. c \<noteq> sep) s"
  by (induction s) (auto split: list.splits simp add: Split_not_empty)

lemma parse_ip_takeWhile:
  "parse_ip ip = takeWhile (\<lambda>c. c \<noteq> CHR ''/'') ip"
proof (cases "CHR ''/'' \<in> set ip")
  case True
  then show ?thesis
    by (simp add: parse_ip_def Contains_single hd_conv_nth [symmetric] Split_not_empty hd_Split)
next
  case False
  then have whole: "takeWhile (\<lambda>c. c \<noteq> CHR ''/'') ip = ip"
    by (auto simp add: takeWhile_eq_all_conv)
  from False have "parse_ip ip = ip"
    by (simp add: parse_ip_def Contains_single)
  then show ?thesis
    unfolding whole .
qed

lemma takeWhile_before_first:
  "c \<in> set s \<Longrightarrow> \<exists>rest. s = takeWhile (\<lambda>x. x \<noteq> c) s @ c # rest"
  by (induction s) auto


subsection \<open>The loops over the tags\<close>





subsection \<open>What the methods send and write\<close>

lemma create_request_scalars_fields:
  "cr_CPUs (create_request_scalars GiB data)
     = (if \<not> Int64_IsNull (vm_CPUs data) \<and> 0 <s ValueInt64 (vm_CPUs data)
        then ValueInt64 (vm_CPUs data) else 0)"
  "cr_RamBytes (create_request_scalars GiB data)
     = (if \<not> Int64_IsNull (vm_RamGB data) \<and> 0 <s ValueInt64 (vm_RamGB data)
        then GiB (ValueInt64 (vm_RamGB data)) else 0)"
  "cr_Tags (create_request_scalars GiB data) = []"
  by (simp_all add: create_request_scalars_def Let_def)

lemma VMResource_Create_written:
  assumes "State (snd (VMResource_Create GiB Format CreateVM plan_diags data)) = Written s"
  shows "\<exists>createReq result.
           fst (VMResource_Create GiB Format CreateVM plan_diags data)
             = Some (ValueString (vm_HostGroup data), createReq)
         \<and> CreateVM (ValueString (vm_HostGroup data)) createReq = Inr result
         \<and> s = data\<lparr>vm_ID := StringValue (res_Hostname result),
                     vm_Hostname := StringValue (res_Hostname result),
                     vm_IP := StringValue (parse_ip (res_IP result)),
                     vm_Arch := StringValue (res_Arch result),
                     vm_CreatedAt := StringValue (Format (res_CreatedAt result))\<rparr>"
  using assms
  by (auto simp add: VMResource_Create_def Let_def
           split: if_splits prod.splits sum.splits)

lemma VMResource_Create_sent:
  assumes "fst (VMResource_Create GiB Format CreateVM plan_diags data)
             = Some (hostGroup, createReq)"
  shows "cr_CPUs createReq = cr_CPUs (create_request_scalars GiB data)
       \<and> cr_RamBytes createReq = cr_RamBytes (create_request_scalars GiB data)
       \<and> cr_Tags createReq
           = append_tags [] (if \<not> Map_IsNull (vm_Tags data)
                             then snd (Map_ElementsAs (vm_Tags data)) else [])"
  using assms
  by (auto simp add: VMResource_Create_def Let_def create_request_scalars_fields(3)
           split: if_splits prod.splits sum.splits)

lemma VMResource_Read_cases:
  "case State (VMResource_Read Format ListVMs state_diags data) of
     Written s \<Rightarrow>
       (\<exists>vms found. ListVMs = Inr vms
           \<and> find_vm (ValueString (vm_Hostname data)) vms = Some found
           \<and> vm_IP s = StringValue (parse_ip (node_IP found))
           \<and> vm_Tags s = (if length (node_Tags found) > 0
                           then MapValueFrom (parse_tags [] (node_Tags found))
                           else vm_Tags data))
   | NotWritten \<Rightarrow> True
   | Removed \<Rightarrow> True"
  by (auto simp add: VMResource_Read_def Let_def split: sum.split option.split)

lemma VMResource_Read_written:
  assumes "State (VMResource_Read Format ListVMs state_diags data) = Written s"
  shows "\<exists>vms found. ListVMs = Inr vms
           \<and> find_vm (ValueString (vm_Hostname data)) vms = Some found
           \<and> vm_IP s = StringValue (parse_ip (node_IP found))
           \<and> vm_Tags s = (if length (node_Tags found) > 0
                           then MapValueFrom (parse_tags [] (node_Tags found))
                           else vm_Tags data)"
  using VMResource_Read_cases
          [where Format = Format and ListVMs = ListVMs
             and state_diags = state_diags and data = data] assms
  by (simp only: state_write.case)

lemma VMDataSource_Read_cases:
  "case State (VMDataSource_Read Format ListVMs config_diags data) of
     Written s \<Rightarrow>
       (\<exists>vms found. ListVMs = Inr vms
           \<and> find_vm (ValueString (vds_Hostname data)) vms = Some found
           \<and> vds_IP s = StringValue (parse_ip (node_IP found))
           \<and> vds_Tags s = (if length (node_Tags found) > 0
                            then MapValueFrom (parse_tags [] (node_Tags found))
                            else MapNull))
   | NotWritten \<Rightarrow> True
   | Removed \<Rightarrow> True"
  by (auto simp add: VMDataSource_Read_def split: sum.split option.split)

lemma VMDataSource_Read_written:
  assumes "State (VMDataSource_Read Format ListVMs config_diags data) = Written s"
  shows "\<exists>vms found. ListVMs = Inr vms
           \<and> find_vm (ValueString (vds_Hostname data)) vms = Some found
           \<and> vds_IP s = StringValue (parse_ip (node_IP found))
           \<and> vds_Tags s = (if length (node_Tags found) > 0
                            then MapValueFrom (parse_tags [] (node_Tags found))
                            else MapNull)"
  using VMDataSource_Read_cases
          [where Format = Format and ListVMs = ListVMs
             and config_diags = config_diags and data = data] assms
  by (simp only: state_write.case)

lemma VMsDataSource_Read_cases:
  "case State (VMsDataSource_Read Format ListVMs config_diags data) of
     Written s \<Rightarrow>
       (\<exists>vms. ListVMs = Inr vms
           \<and> vms_VMs s
               = Some (map (vm_model Format)
                         (filter (\<lambda>vm. matchesFilters vm
                                    (case vms_Filter data of None \<Rightarrow> [] | Some fs \<Rightarrow> fs)) vms)))
   | NotWritten \<Rightarrow> True
   | Removed \<Rightarrow> True"
  by (auto simp add: VMsDataSource_Read_def Let_def split: sum.split)

lemma VMsDataSource_Read_written:
  assumes "State (VMsDataSource_Read Format ListVMs config_diags data) = Written s"
  shows "\<exists>vms. ListVMs = Inr vms
           \<and> vms_VMs s
               = Some (map (vm_model Format)
                         (filter (\<lambda>vm. matchesFilters vm
                                    (case vms_Filter data of None \<Rightarrow> [] | Some fs \<Rightarrow> fs)) vms))"
  using VMsDataSource_Read_cases
          [where Format = Format and ListVMs = ListVMs
             and config_diags = config_diags and data = data] assms
  by (simp only: state_write.case)

lemma vm_model_fields:
  "vmm_IP (vm_model Format vm) = StringValue (parse_ip (node_IP vm))"
  "vmm_Tags (vm_model Format vm)
     = (if length (node_Tags vm) > 0 then MapValueFrom (parse_tags [] (node_Tags vm))
        else MapNull)"
  by (simp_all add: vm_model_def)
text \<open>
  The same in the forward direction: when the methods get as far as the remote, what
  they send, and what they write for the answer.
\<close>

lemma List_ElementsAs_guarded:
  "(if \<not> List_IsNull l then List_ElementsAs l else ([], [])) = List_ElementsAs l"
  by (cases l) simp_all

lemma Map_ElementsAs_guarded:
  "(if \<not> Map_IsNull m then Map_ElementsAs m else ([], [])) = Map_ElementsAs m"
  by (cases m) simp_all

lemma VMResource_Create_sends:
  assumes "\<not> HasError plan_diags"
      and "\<not> HasError (fst (List_ElementsAs (vm_SSHKeys data)))"
      and "\<not> HasError (fst (Map_ElementsAs (vm_Tags data)))"
      and "\<not> HasError (fst (List_ElementsAs (vm_Secrets data)))"
  shows "\<exists>createReq.
           fst (VMResource_Create GiB Format CreateVM plan_diags data)
             = Some (ValueString (vm_HostGroup data), createReq)"
proof -
  obtain d1 sshKeys where keys: "List_ElementsAs (vm_SSHKeys data) = (d1, sshKeys)"
    by (cases "List_ElementsAs (vm_SSHKeys data)")
  obtain d2 tags where tags: "Map_ElementsAs (vm_Tags data) = (d2, tags)"
    by (cases "Map_ElementsAs (vm_Tags data)")
  obtain d3 secrets where secrets: "List_ElementsAs (vm_Secrets data) = (d3, secrets)"
    by (cases "List_ElementsAs (vm_Secrets data)")
  from assms keys tags secrets
  have clean: "\<not> HasError plan_diags" "\<not> HasError d1" "\<not> HasError d2" "\<not> HasError d3"
    by simp_all
  then show ?thesis
    by (simp add: VMResource_Create_def Let_def HasError_append
          List_ElementsAs_guarded Map_ElementsAs_guarded keys tags secrets
             split: sum.split)
qed

lemma VMResource_Create_accepted:
  assumes "fst (VMResource_Create GiB Format CreateVM plan_diags data)
             = Some (hostGroup, createReq)"
      and "CreateVM hostGroup createReq = Inr result"
  shows "State (snd (VMResource_Create GiB Format CreateVM plan_diags data))
           = Written (data\<lparr>vm_ID := StringValue (res_Hostname result),
                            vm_Hostname := StringValue (res_Hostname result),
                            vm_IP := StringValue (parse_ip (res_IP result)),
                            vm_Arch := StringValue (res_Arch result),
                            vm_CreatedAt := StringValue (Format (res_CreatedAt result))\<rparr>)"
  using assms
  by (auto simp add: VMResource_Create_def Let_def
           split: if_splits prod.splits sum.splits)

lemma VMResource_Read_found:
  assumes "\<not> HasError state_diags"
      and "ListVMs = Inr vms"
      and "find_vm (ValueString (vm_Hostname data)) vms = Some found"
  shows "\<exists>s. State (VMResource_Read Format ListVMs state_diags data) = Written s
           \<and> vm_IP s = StringValue (parse_ip (node_IP found))
           \<and> vm_Tags s = (if length (node_Tags found) > 0
                           then MapValueFrom (parse_tags [] (node_Tags found))
                           else vm_Tags data)"
  using assms by (simp add: VMResource_Read_def Let_def)

lemma VMDataSource_Read_found:
  assumes "\<not> HasError config_diags"
      and "ListVMs = Inr vms"
      and "find_vm (ValueString (vds_Hostname data)) vms = Some found"
  shows "\<exists>s. State (VMDataSource_Read Format ListVMs config_diags data) = Written s
           \<and> vds_IP s = StringValue (parse_ip (node_IP found))
           \<and> vds_Tags s = (if length (node_Tags found) > 0
                            then MapValueFrom (parse_tags [] (node_Tags found))
                            else MapNull)"
  using assms by (simp add: VMDataSource_Read_def)

lemma VMsDataSource_Read_listed:
  assumes "\<not> HasError config_diags"
      and "ListVMs = Inr vms"
  shows "\<exists>s. State (VMsDataSource_Read Format ListVMs config_diags data) = Written s
           \<and> vms_VMs s
               = Some (map (vm_model Format)
                         (filter (\<lambda>vm. matchesFilters vm
                                    (case vms_Filter data of None \<Rightarrow> [] | Some fs \<Rightarrow> fs)) vms))"
  using assms by (simp add: VMsDataSource_Read_def Let_def)

subsection \<open>The address\<close>

text \<open>
  Claim C7. The address the provider exposes for an IP string is the part of the
  string before its first \<^verbatim>\<open>/\<close>: when the string contains a \<^verbatim>\<open>/\<close> it is that
  prefix, followed in the string by the \<^verbatim>\<open>/\<close> and the rest, and it contains no
  \<^verbatim>\<open>/\<close> itself; a string without \<^verbatim>\<open>/\<close> is exposed unchanged. Every method
  exposes this address, in both directions: whenever it reaches the remote and gets a
  record, it writes a state, and the \<^verbatim>\<open>ip\<close> of that state is the address of the
  record's IP string, whatever \<^verbatim>\<open>ip\<close> the plan or the prior state had; and
  whenever it writes a state, there is such a record.
  \<^item> \<^verbatim>\<open>VMResource.Create\<close> sends a request when the plan and its lists and map
    convert without error; when the remote answers the request sent with a record,
    the state written has the address of that record.
  \<^item> \<^verbatim>\<open>VMResource.Read\<close> and the data source \<^verbatim>\<open>slicer_vm\<close>, when the remote's
    list has a VM with the hostname looked for, write the address of the first such
    record.
  \<^item> The data source \<^verbatim>\<open>slicer_vms\<close>, when the remote answers with a list, writes
    for each record that passes the filters the address of that record, in order.
\<close>

theorem ip_is_prefix_before_first_slash:
  "parse_ip ip = takeWhile (\<lambda>c. c \<noteq> CHR ''/'') ip
   \<and> (CHR ''/'' \<in> set ip \<longrightarrow>
        (\<exists>rest. ip = parse_ip ip @ CHR ''/'' # rest) \<and> CHR ''/'' \<notin> set (parse_ip ip))
   \<and> (CHR ''/'' \<notin> set ip \<longrightarrow> parse_ip ip = ip)
   \<and> (\<not> HasError diags
        \<and> \<not> HasError (fst (List_ElementsAs (vm_SSHKeys plan)))
        \<and> \<not> HasError (fst (Map_ElementsAs (vm_Tags plan)))
        \<and> \<not> HasError (fst (List_ElementsAs (vm_Secrets plan))) \<longrightarrow>
        (\<exists>createReq.
            fst (VMResource_Create GiB Format CreateVM diags plan)
              = Some (ValueString (vm_HostGroup plan), createReq)))
   \<and> (\<forall>hostGroup createReq result.
          fst (VMResource_Create GiB Format CreateVM diags plan) = Some (hostGroup, createReq)
        \<and> CreateVM hostGroup createReq = Inr result \<longrightarrow>
         (\<exists>s. State (snd (VMResource_Create GiB Format CreateVM diags plan)) = Written s
            \<and> vm_IP s = StringValue (parse_ip (res_IP result))))
   \<and> (\<forall>s. State (snd (VMResource_Create GiB Format CreateVM diags plan)) = Written s \<longrightarrow>
         (\<exists>createReq result.
             fst (VMResource_Create GiB Format CreateVM diags plan)
               = Some (ValueString (vm_HostGroup plan), createReq)
           \<and> CreateVM (ValueString (vm_HostGroup plan)) createReq = Inr result
           \<and> vm_IP s = StringValue (parse_ip (res_IP result))))
   \<and> (\<forall>vms found.
          \<not> HasError diags \<and> ListVMs = Inr vms
        \<and> find_vm (ValueString (vm_Hostname state)) vms = Some found \<longrightarrow>
         (\<exists>s. State (VMResource_Read Format ListVMs diags state) = Written s
            \<and> vm_IP s = StringValue (parse_ip (node_IP found))))
   \<and> (\<forall>s. State (VMResource_Read Format ListVMs diags state) = Written s \<longrightarrow>
         (\<exists>vms found. ListVMs = Inr vms
           \<and> find_vm (ValueString (vm_Hostname state)) vms = Some found
           \<and> vm_IP s = StringValue (parse_ip (node_IP found))))
   \<and> (\<forall>vms found.
          \<not> HasError diags \<and> ListVMs = Inr vms
        \<and> find_vm (ValueString (vds_Hostname config)) vms = Some found \<longrightarrow>
         (\<exists>s. State (VMDataSource_Read Format ListVMs diags config) = Written s
            \<and> vds_IP s = StringValue (parse_ip (node_IP found))))
   \<and> (\<forall>s. State (VMDataSource_Read Format ListVMs diags config) = Written s \<longrightarrow>
         (\<exists>vms found. ListVMs = Inr vms
           \<and> find_vm (ValueString (vds_Hostname config)) vms = Some found
           \<and> vds_IP s = StringValue (parse_ip (node_IP found))))
   \<and> (\<forall>vms. \<not> HasError diags \<and> ListVMs = Inr vms \<longrightarrow>
         (\<exists>s listed. State (VMsDataSource_Read Format ListVMs diags configs) = Written s
            \<and> vms_VMs s = Some listed
            \<and> map vmm_IP listed
                = map (\<lambda>vm. StringValue (parse_ip (node_IP vm)))
                    (filter (\<lambda>vm. matchesFilters vm
                               (case vms_Filter configs of None \<Rightarrow> [] | Some fs \<Rightarrow> fs)) vms)))
   \<and> (\<forall>s. State (VMsDataSource_Read Format ListVMs diags configs) = Written s \<longrightarrow>
         (\<exists>vms listed. ListVMs = Inr vms
           \<and> vms_VMs s = Some listed
           \<and> map vmm_IP listed
               = map (\<lambda>vm. StringValue (parse_ip (node_IP vm)))
                   (filter (\<lambda>vm. matchesFilters vm
                              (case vms_Filter configs of None \<Rightarrow> [] | Some fs \<Rightarrow> fs)) vms)))"
proof -
  have prefix: "parse_ip ip = takeWhile (\<lambda>c. c \<noteq> CHR ''/'') ip"
    by (rule parse_ip_takeWhile)
  have cut: "CHR ''/'' \<in> set ip \<longrightarrow>
        (\<exists>rest. ip = parse_ip ip @ CHR ''/'' # rest) \<and> CHR ''/'' \<notin> set (parse_ip ip)"
  proof (intro impI conjI)
    assume "CHR ''/'' \<in> set ip"
    from takeWhile_before_first [OF this]
    show "\<exists>rest. ip = parse_ip ip @ CHR ''/'' # rest"
      by (simp only: prefix)
    show "CHR ''/'' \<notin> set (parse_ip ip)"
      unfolding prefix by (auto dest: set_takeWhileD)
  qed
  have whole: "CHR ''/'' \<notin> set ip \<longrightarrow> parse_ip ip = ip"
    by (simp add: parse_ip_def Contains_single)
  have sends: "\<not> HasError diags
        \<and> \<not> HasError (fst (List_ElementsAs (vm_SSHKeys plan)))
        \<and> \<not> HasError (fst (Map_ElementsAs (vm_Tags plan)))
        \<and> \<not> HasError (fst (List_ElementsAs (vm_Secrets plan))) \<longrightarrow>
        (\<exists>createReq.
            fst (VMResource_Create GiB Format CreateVM diags plan)
              = Some (ValueString (vm_HostGroup plan), createReq))"
    by (intro impI, elim conjE) (rule VMResource_Create_sends)
  have accepted: "\<forall>hostGroup createReq result.
          fst (VMResource_Create GiB Format CreateVM diags plan) = Some (hostGroup, createReq)
        \<and> CreateVM hostGroup createReq = Inr result \<longrightarrow>
         (\<exists>s. State (snd (VMResource_Create GiB Format CreateVM diags plan)) = Written s
            \<and> vm_IP s = StringValue (parse_ip (res_IP result)))"
  proof (intro allI impI, elim conjE)
    fix hostGroup createReq result
    assume "fst (VMResource_Create GiB Format CreateVM diags plan) = Some (hostGroup, createReq)"
      and "CreateVM hostGroup createReq = Inr result"
    from VMResource_Create_accepted [OF this]
    show "\<exists>s. State (snd (VMResource_Create GiB Format CreateVM diags plan)) = Written s
            \<and> vm_IP s = StringValue (parse_ip (res_IP result))"
      by simp
  qed
  have created: "\<forall>s. State (snd (VMResource_Create GiB Format CreateVM diags plan)) = Written s \<longrightarrow>
         (\<exists>createReq result.
             fst (VMResource_Create GiB Format CreateVM diags plan)
               = Some (ValueString (vm_HostGroup plan), createReq)
           \<and> CreateVM (ValueString (vm_HostGroup plan)) createReq = Inr result
           \<and> vm_IP s = StringValue (parse_ip (res_IP result)))"
  proof (intro allI impI)
    fix s assume "State (snd (VMResource_Create GiB Format CreateVM diags plan)) = Written s"
    from VMResource_Create_written [OF this]
    obtain createReq result where
      "fst (VMResource_Create GiB Format CreateVM diags plan)
         = Some (ValueString (vm_HostGroup plan), createReq)"
      "CreateVM (ValueString (vm_HostGroup plan)) createReq = Inr result"
      "s = plan\<lparr>vm_ID := StringValue (res_Hostname result),
                vm_Hostname := StringValue (res_Hostname result),
                vm_IP := StringValue (parse_ip (res_IP result)),
                vm_Arch := StringValue (res_Arch result),
                vm_CreatedAt := StringValue (Format (res_CreatedAt result))\<rparr>"
      by blast
    then have "fst (VMResource_Create GiB Format CreateVM diags plan)
                 = Some (ValueString (vm_HostGroup plan), createReq)
             \<and> CreateVM (ValueString (vm_HostGroup plan)) createReq = Inr result
             \<and> vm_IP s = StringValue (parse_ip (res_IP result))"
      by simp
    then show "\<exists>createReq result.
             fst (VMResource_Create GiB Format CreateVM diags plan)
               = Some (ValueString (vm_HostGroup plan), createReq)
           \<and> CreateVM (ValueString (vm_HostGroup plan)) createReq = Inr result
           \<and> vm_IP s = StringValue (parse_ip (res_IP result))"
      by blast
  qed
  have refreshed: "\<forall>vms found.
          \<not> HasError diags \<and> ListVMs = Inr vms
        \<and> find_vm (ValueString (vm_Hostname state)) vms = Some found \<longrightarrow>
         (\<exists>s. State (VMResource_Read Format ListVMs diags state) = Written s
            \<and> vm_IP s = StringValue (parse_ip (node_IP found)))"
  proof (intro allI impI, elim conjE)
    fix vms found
    assume "\<not> HasError diags" and "ListVMs = Inr vms"
      and "find_vm (ValueString (vm_Hostname state)) vms = Some found"
    from VMResource_Read_found [OF this]
    show "\<exists>s. State (VMResource_Read Format ListVMs diags state) = Written s
            \<and> vm_IP s = StringValue (parse_ip (node_IP found))"
      by blast
  qed
  have read: "\<forall>s. State (VMResource_Read Format ListVMs diags state) = Written s \<longrightarrow>
         (\<exists>vms found. ListVMs = Inr vms
           \<and> find_vm (ValueString (vm_Hostname state)) vms = Some found
           \<and> vm_IP s = StringValue (parse_ip (node_IP found)))"
  proof (intro allI impI)
    fix s assume "State (VMResource_Read Format ListVMs diags state) = Written s"
    from VMResource_Read_written [OF this]
    show "\<exists>vms found. ListVMs = Inr vms
          \<and> find_vm (ValueString (vm_Hostname state)) vms = Some found
          \<and> vm_IP s = StringValue (parse_ip (node_IP found))"
      by blast
  qed
  have found_up: "\<forall>vms found.
          \<not> HasError diags \<and> ListVMs = Inr vms
        \<and> find_vm (ValueString (vds_Hostname config)) vms = Some found \<longrightarrow>
         (\<exists>s. State (VMDataSource_Read Format ListVMs diags config) = Written s
            \<and> vds_IP s = StringValue (parse_ip (node_IP found)))"
  proof (intro allI impI, elim conjE)
    fix vms found
    assume "\<not> HasError diags" and "ListVMs = Inr vms"
      and "find_vm (ValueString (vds_Hostname config)) vms = Some found"
    from VMDataSource_Read_found [OF this]
    show "\<exists>s. State (VMDataSource_Read Format ListVMs diags config) = Written s
            \<and> vds_IP s = StringValue (parse_ip (node_IP found))"
      by blast
  qed
  have looked_up: "\<forall>s. State (VMDataSource_Read Format ListVMs diags config) = Written s \<longrightarrow>
         (\<exists>vms found. ListVMs = Inr vms
           \<and> find_vm (ValueString (vds_Hostname config)) vms = Some found
           \<and> vds_IP s = StringValue (parse_ip (node_IP found)))"
  proof (intro allI impI)
    fix s assume "State (VMDataSource_Read Format ListVMs diags config) = Written s"
    from VMDataSource_Read_written [OF this]
    show "\<exists>vms found. ListVMs = Inr vms
          \<and> find_vm (ValueString (vds_Hostname config)) vms = Some found
          \<and> vds_IP s = StringValue (parse_ip (node_IP found))"
      by blast
  qed
  have addresses: "map vmm_IP (map (vm_model Format)
                      (filter (\<lambda>vm. matchesFilters vm
                                 (case vms_Filter configs of None \<Rightarrow> [] | Some fs \<Rightarrow> fs)) vms))
          = map (\<lambda>vm. StringValue (parse_ip (node_IP vm)))
              (filter (\<lambda>vm. matchesFilters vm
                         (case vms_Filter configs of None \<Rightarrow> [] | Some fs \<Rightarrow> fs)) vms)" for vms
    by (simp add: vm_model_fields)
  have lists: "\<forall>vms. \<not> HasError diags \<and> ListVMs = Inr vms \<longrightarrow>
         (\<exists>s listed. State (VMsDataSource_Read Format ListVMs diags configs) = Written s
            \<and> vms_VMs s = Some listed
            \<and> map vmm_IP listed
                = map (\<lambda>vm. StringValue (parse_ip (node_IP vm)))
                    (filter (\<lambda>vm. matchesFilters vm
                               (case vms_Filter configs of None \<Rightarrow> [] | Some fs \<Rightarrow> fs)) vms))"
  proof (intro allI impI, elim conjE)
    fix vms
    assume "\<not> HasError diags" and "ListVMs = Inr vms"
    from VMsDataSource_Read_listed [OF this]
    obtain s where "State (VMsDataSource_Read Format ListVMs diags configs) = Written s"
      "vms_VMs s = Some (map (vm_model Format)
                          (filter (\<lambda>vm. matchesFilters vm
                                     (case vms_Filter configs of None \<Rightarrow> [] | Some fs \<Rightarrow> fs)) vms))"
      by blast
    with addresses [of vms]
    show "\<exists>s listed. State (VMsDataSource_Read Format ListVMs diags configs) = Written s
            \<and> vms_VMs s = Some listed
            \<and> map vmm_IP listed
                = map (\<lambda>vm. StringValue (parse_ip (node_IP vm)))
                    (filter (\<lambda>vm. matchesFilters vm
                               (case vms_Filter configs of None \<Rightarrow> [] | Some fs \<Rightarrow> fs)) vms)"
      by blast
  qed
  have listed: "\<forall>s. State (VMsDataSource_Read Format ListVMs diags configs) = Written s \<longrightarrow>
         (\<exists>vms listed. ListVMs = Inr vms
           \<and> vms_VMs s = Some listed
           \<and> map vmm_IP listed
               = map (\<lambda>vm. StringValue (parse_ip (node_IP vm)))
                   (filter (\<lambda>vm. matchesFilters vm
                              (case vms_Filter configs of None \<Rightarrow> [] | Some fs \<Rightarrow> fs)) vms))"
  proof (intro allI impI)
    fix s assume "State (VMsDataSource_Read Format ListVMs diags configs) = Written s"
    from VMsDataSource_Read_written [OF this]
    obtain vms where vms: "ListVMs = Inr vms"
      "vms_VMs s = Some (map (vm_model Format)
                          (filter (\<lambda>vm. matchesFilters vm
                                     (case vms_Filter configs of None \<Rightarrow> [] | Some fs \<Rightarrow> fs)) vms))"
      by blast
    with addresses [of vms] show "\<exists>vms listed. ListVMs = Inr vms
        \<and> vms_VMs s = Some listed
        \<and> map vmm_IP listed
            = map (\<lambda>vm. StringValue (parse_ip (node_IP vm)))
                (filter (\<lambda>vm. matchesFilters vm
                           (case vms_Filter configs of None \<Rightarrow> [] | Some fs \<Rightarrow> fs)) vms)"
      by blast
  qed
  show ?thesis
    by (intro conjI prefix cut whole sends accepted created refreshed read found_up looked_up
          lists listed)
qed

lemma web_vm_created:
  "VMResource_Create times_GiB fixed_stamp accepting [] web_vm
     = (Some (''w1-medium'',
              \<lparr>cr_RamBytes = 8589934592, cr_CPUs = 2, cr_Persistent = False,
               cr_DiskImage = [], cr_ImportUser = [], cr_SSHKeys = [], cr_Userdata = [],
               cr_Tags = [''role=k3s'', ''expr=a=b''], cr_Secrets = []\<rparr>),
        \<lparr>Diagnostics = [], State = Written created_vm\<rparr>)"
  by (simp add: VMResource_Create_def create_request_scalars_def web_vm_def created_vm_def
        accepting_def times_GiB_def fixed_stamp_def parse_ip_def word_sless_alt)

lemma default_vm_created:
  "fst (VMResource_Create times_GiB fixed_stamp accepting [] default_vm)
     = Some (''w1-medium'',
             \<lparr>cr_RamBytes = 0, cr_CPUs = 0, cr_Persistent = False,
              cr_DiskImage = [], cr_ImportUser = [], cr_SSHKeys = [], cr_Userdata = [],
              cr_Tags = [''role=k3s'', ''expr=a=b''], cr_Secrets = []\<rparr>)"
  by (simp add: VMResource_Create_def create_request_scalars_def web_vm_def default_vm_def
        accepting_def times_GiB_def fixed_stamp_def parse_ip_def word_sless_alt)

lemma created_vm_read:
  "State (VMResource_Read fixed_stamp (Inr [listed_vm]) [] created_vm)
     = Written (created_vm
         \<lparr>vm_Tags := MapValue [(''role'', StringValue ''k3s''), (''expr'', StringValue ''a=b'')]\<rparr>)"
  by (simp add: VMResource_Read_def listed_vm_def created_vm_def web_vm_def fixed_stamp_def
        parse_ip_def MapValueFrom_def int64_quo_def word_sless_alt)

lemma vm_lookup_read:
  "State (VMDataSource_Read fixed_stamp (Inr [listed_vm]) [] vm_lookup)
     = Written \<lparr>vds_Hostname = StringValue ''w1-medium-1'', vds_IP = StringValue ''10.0.0.5'',
                vds_CPUs = Int64Value 2, vds_RamGB = Int64Value 8,
                vds_Arch = StringValue ''amd64'',
                vds_Tags = MapValue [(''role'', StringValue ''k3s''),
                                     (''expr'', StringValue ''a=b'')],
                vds_CreatedAt = StringValue ''2024-01-01T00:00:00Z''\<rparr>"
  by (simp add: VMDataSource_Read_def listed_vm_def vm_lookup_def fixed_stamp_def
        parse_ip_def MapValueFrom_def int64_quo_def word_sless_alt)

lemma vms_lookup_read:
  "State (VMsDataSource_Read fixed_stamp (Inr [listed_vm]) [] vms_lookup)
     = Written \<lparr>vms_Filter = Some [\<lparr>filter_Tag = StringValue ''role=k3s''\<rparr>],
                vms_VMs = Some [vm_model fixed_stamp listed_vm],
                vms_TotalCount = Int64Value 1\<rparr>"
  by (simp add: VMsDataSource_Read_def listed_vm_def vms_lookup_def matchesFilters_def)

lemma concrete_lookups:
  "\<not> HasError []"
  "find_vm (ValueString (vm_Hostname stale_vm)) [listed_vm] = Some listed_vm"
  "find_vm (ValueString (vds_Hostname vm_lookup)) [listed_vm] = Some listed_vm"
  "filter (\<lambda>vm. matchesFilters vm
             (case vms_Filter vms_lookup of None \<Rightarrow> [] | Some fs \<Rightarrow> fs)) [listed_vm]
     = [listed_vm]"
  "\<not> HasError (fst (List_ElementsAs (vm_SSHKeys web_vm)))"
  "\<not> HasError (fst (Map_ElementsAs (vm_Tags web_vm)))"
  "\<not> HasError (fst (List_ElementsAs (vm_Secrets web_vm)))"
  "ValueString (vm_HostGroup web_vm) = ''w1-medium''"
  by (simp_all add: stale_vm_def created_vm_def web_vm_def vm_lookup_def vms_lookup_def
        listed_vm_def matchesFilters_def)

theorem ip_is_prefix_before_first_slash_witness:
  "CHR ''/'' \<in> set ''10.0.0.5/24''
   \<and> parse_ip ''10.0.0.5/24'' = ''10.0.0.5''
   \<and> CHR ''/'' \<notin> set ''10.0.0.5''
   \<and> parse_ip ''10.0.0.5'' = ''10.0.0.5''
   \<and> (\<exists>createReq.
         fst (VMResource_Create times_GiB fixed_stamp accepting [] web_vm)
           = Some (''w1-medium'', createReq)
       \<and> (\<exists>result. accepting ''w1-medium'' createReq = Inr result
                   \<and> res_IP result = ''10.0.0.5/24''))
   \<and> vm_IP web_vm = StringUnknown
   \<and> (\<exists>s. State (snd (VMResource_Create times_GiB fixed_stamp accepting [] web_vm)) = Written s
          \<and> vm_IP s = StringValue ''10.0.0.5'')
   \<and> vm_IP stale_vm = StringValue ''192.168.0.9''
   \<and> (\<exists>s. State (VMResource_Read fixed_stamp (Inr [listed_vm]) [] stale_vm) = Written s
          \<and> vm_IP s = StringValue ''10.0.0.5'')
   \<and> vds_IP vm_lookup = StringUnknown
   \<and> (\<exists>s. State (VMDataSource_Read fixed_stamp (Inr [listed_vm]) [] vm_lookup) = Written s
          \<and> vds_IP s = StringValue ''10.0.0.5'')
   \<and> (\<exists>s listed. State (VMsDataSource_Read fixed_stamp (Inr [listed_vm]) [] vms_lookup)
                     = Written s
          \<and> vms_VMs s = Some listed \<and> map vmm_IP listed = [StringValue ''10.0.0.5''])"
proof -
  note main = ip_is_prefix_before_first_slash
                [where GiB = times_GiB and Format = fixed_stamp and CreateVM = accepting
                   and diags = "[]" and plan = web_vm and ListVMs = "Inr [listed_vm]"
                   and state = stale_vm and config = vm_lookup and configs = vms_lookup]
  note rest = main [where ip = "[]", THEN conjunct2, THEN conjunct2, THEN conjunct2]
  have slash: "CHR ''/'' \<in> set ''10.0.0.5/24''"
    by simp
  have bare: "CHR ''/'' \<notin> set ''10.0.0.5''"
    by simp
  from main [where ip = "''10.0.0.5/24''", THEN conjunct1]
  have stripped: "parse_ip ''10.0.0.5/24'' = ''10.0.0.5''"
    by simp
  from main [where ip = "''10.0.0.5''", THEN conjunct2, THEN conjunct2, THEN conjunct1] bare
  have unchanged: "parse_ip ''10.0.0.5'' = ''10.0.0.5''"
    by blast
  have listed_ip: "parse_ip (node_IP listed_vm) = ''10.0.0.5''"
    using stripped by (simp add: listed_vm_def)
  from rest [THEN conjunct1] concrete_lookups
  obtain createReq where sent:
    "fst (VMResource_Create times_GiB fixed_stamp accepting [] web_vm)
       = Some (''w1-medium'', createReq)"
    by auto
  have answer: "accepting ''w1-medium'' createReq
                  = Inr \<lparr>res_Hostname = ''w1-medium-1'', res_IP = ''10.0.0.5/24'',
                         res_Arch = ''amd64'', res_CreatedAt = 0\<rparr>"
    by (simp add: accepting_def)
  from answer
  have answered: "\<exists>result. accepting ''w1-medium'' createReq = Inr result
                     \<and> res_IP result = ''10.0.0.5/24''"
    by simp
  from sent answered
  have r0: "\<exists>createReq.
         fst (VMResource_Create times_GiB fixed_stamp accepting [] web_vm)
           = Some (''w1-medium'', createReq)
       \<and> (\<exists>result. accepting ''w1-medium'' createReq = Inr result
                   \<and> res_IP result = ''10.0.0.5/24'')"
    by blast
  have planned: "vm_IP web_vm = StringUnknown"
    by (simp add: web_vm_def)
  from rest [THEN conjunct2, THEN conjunct1, rule_format, OF conjI, OF sent answer]
  have r1: "\<exists>s. State (snd (VMResource_Create times_GiB fixed_stamp accepting [] web_vm))
                  = Written s
              \<and> vm_IP s = StringValue ''10.0.0.5''"
    using stripped by simp
  have stale: "vm_IP stale_vm = StringValue ''192.168.0.9''"
    by (simp add: stale_vm_def)
  from rest [THEN conjunct2, THEN conjunct2, THEN conjunct2, THEN conjunct1, rule_format,
             of "[listed_vm]" listed_vm] concrete_lookups
  have r2: "\<exists>s. State (VMResource_Read fixed_stamp (Inr [listed_vm]) [] stale_vm) = Written s
              \<and> vm_IP s = StringValue ''10.0.0.5''"
    by (simp only: listed_ip simp_thms)
  have unknown: "vds_IP vm_lookup = StringUnknown"
    by (simp add: vm_lookup_def)
  from rest [THEN conjunct2, THEN conjunct2, THEN conjunct2, THEN conjunct2, THEN conjunct2,
             THEN conjunct1, rule_format, of "[listed_vm]" listed_vm] concrete_lookups
  have r3: "\<exists>s. State (VMDataSource_Read fixed_stamp (Inr [listed_vm]) [] vm_lookup) = Written s
              \<and> vds_IP s = StringValue ''10.0.0.5''"
    by (simp only: listed_ip simp_thms)
  from rest [THEN conjunct2, THEN conjunct2, THEN conjunct2, THEN conjunct2, THEN conjunct2,
             THEN conjunct2, THEN conjunct2, THEN conjunct1, rule_format, of "[listed_vm]"]
       concrete_lookups
  have r4: "\<exists>s listed. State (VMsDataSource_Read fixed_stamp (Inr [listed_vm]) [] vms_lookup)
                          = Written s
              \<and> vms_VMs s = Some listed \<and> map vmm_IP listed = [StringValue ''10.0.0.5'']"
    by (simp add: listed_ip)
  show ?thesis
    by (intro conjI slash stripped bare unchanged r0 planned r1 stale r2 unknown r3 r4)
qed

subsection \<open>The sizes in the create request\<close>

text \<open>
  Claim C8. In the request \<^verbatim>\<open>VMResource.Create\<close> sends to the remote, the CPU count
  is the configured \<^verbatim>\<open>cpus\<close> when that is non-null and greater than zero, and the
  zero value otherwise: the request carries a CPU count (a non-zero one) if and only
  if \<^verbatim>\<open>cpus\<close> is non-null and greater than zero. The RAM size is
  \<^verbatim>\<open>slicer.GiB\<close> of the configured \<^verbatim>\<open>ram_gb\<close> when that is non-null and greater
  than zero, and the zero value otherwise: the request carries a RAM size only if
  \<^verbatim>\<open>ram_gb\<close> is non-null and greater than zero, and then it carries the size that
  \<^verbatim>\<open>slicer.GiB\<close> returns for it. A configured zero is never copied into the request.
\<close>

theorem create_request_sizes:
  assumes "fst (VMResource_Create GiB Format CreateVM plan_diags data)
             = Some (hostGroup, createReq)"
  shows "cr_CPUs createReq
           = (if \<not> Int64_IsNull (vm_CPUs data) \<and> 0 <s ValueInt64 (vm_CPUs data)
              then ValueInt64 (vm_CPUs data) else 0)
       \<and> (cr_CPUs createReq \<noteq> 0)
           = (\<not> Int64_IsNull (vm_CPUs data) \<and> 0 <s ValueInt64 (vm_CPUs data))
       \<and> cr_RamBytes createReq
           = (if \<not> Int64_IsNull (vm_RamGB data) \<and> 0 <s ValueInt64 (vm_RamGB data)
              then GiB (ValueInt64 (vm_RamGB data)) else 0)
       \<and> (cr_RamBytes createReq \<noteq> 0 \<longrightarrow>
            \<not> Int64_IsNull (vm_RamGB data) \<and> 0 <s ValueInt64 (vm_RamGB data))
       \<and> (\<not> Int64_IsNull (vm_RamGB data) \<and> 0 <s ValueInt64 (vm_RamGB data)
            \<and> GiB (ValueInt64 (vm_RamGB data)) \<noteq> 0
          \<longrightarrow> cr_RamBytes createReq \<noteq> 0)"
proof -
  from VMResource_Create_sent [OF assms]
  have cpus: "cr_CPUs createReq
                = (if \<not> Int64_IsNull (vm_CPUs data) \<and> 0 <s ValueInt64 (vm_CPUs data)
                   then ValueInt64 (vm_CPUs data) else 0)"
    and ram: "cr_RamBytes createReq
                = (if \<not> Int64_IsNull (vm_RamGB data) \<and> 0 <s ValueInt64 (vm_RamGB data)
                   then GiB (ValueInt64 (vm_RamGB data)) else 0)"
    by (simp_all add: create_request_scalars_fields)
  have positive: "0 <s n \<Longrightarrow> n \<noteq> 0" for n :: int64
    by auto
  from cpus have "(cr_CPUs createReq \<noteq> 0)
                    = (\<not> Int64_IsNull (vm_CPUs data) \<and> 0 <s ValueInt64 (vm_CPUs data))"
    using positive [of "ValueInt64 (vm_CPUs data)"] by auto
  with cpus ram show ?thesis
    by auto
qed

theorem create_request_sizes_witness:
  "fst (VMResource_Create times_GiB fixed_stamp accepting [] web_vm)
     = Some (''w1-medium'',
             \<lparr>cr_RamBytes = 8589934592, cr_CPUs = 2, cr_Persistent = False,
              cr_DiskImage = [], cr_ImportUser = [], cr_SSHKeys = [], cr_Userdata = [],
              cr_Tags = [''role=k3s'', ''expr=a=b''], cr_Secrets = []\<rparr>)
   \<and> \<not> Int64_IsNull (vm_CPUs web_vm) \<and> 0 <s ValueInt64 (vm_CPUs web_vm)
   \<and> \<not> Int64_IsNull (vm_RamGB web_vm) \<and> 0 <s ValueInt64 (vm_RamGB web_vm)
   \<and> times_GiB (ValueInt64 (vm_RamGB web_vm)) \<noteq> 0
   \<and> fst (VMResource_Create times_GiB fixed_stamp accepting [] default_vm)
     = Some (''w1-medium'',
             \<lparr>cr_RamBytes = 0, cr_CPUs = 0, cr_Persistent = False,
              cr_DiskImage = [], cr_ImportUser = [], cr_SSHKeys = [], cr_Userdata = [],
              cr_Tags = [''role=k3s'', ''expr=a=b''], cr_Secrets = []\<rparr>)
   \<and> \<not> 0 <s ValueInt64 (vm_CPUs default_vm)
   \<and> Int64_IsNull (vm_RamGB default_vm)"
proof -
  let ?sent = "\<lparr>cr_RamBytes = 8589934592, cr_CPUs = 2, cr_Persistent = False,
                 cr_DiskImage = [], cr_ImportUser = [], cr_SSHKeys = [], cr_Userdata = [],
                 cr_Tags = [''role=k3s'', ''expr=a=b''], cr_Secrets = []\<rparr>"
  have sent: "fst (VMResource_Create times_GiB fixed_stamp accepting [] web_vm)
                = Some (''w1-medium'', ?sent)"
    by (simp add: web_vm_created)
  note main = create_request_sizes [OF sent]
  have carried: "cr_CPUs ?sent \<noteq> 0" "cr_RamBytes ?sent \<noteq> 0"
    by simp_all
  from main carried
  have configured: "\<not> Int64_IsNull (vm_CPUs web_vm) \<and> 0 <s ValueInt64 (vm_CPUs web_vm)"
    "\<not> Int64_IsNull (vm_RamGB web_vm) \<and> 0 <s ValueInt64 (vm_RamGB web_vm)"
    by blast+
  from main configured(2) have "cr_RamBytes ?sent = times_GiB (ValueInt64 (vm_RamGB web_vm))"
    by simp
  with carried(2) have nonzero: "times_GiB (ValueInt64 (vm_RamGB web_vm)) \<noteq> 0"
    by simp
  have unset: "\<not> 0 <s ValueInt64 (vm_CPUs default_vm)" "Int64_IsNull (vm_RamGB default_vm)"
    by (simp_all add: default_vm_def)
  from sent configured nonzero default_vm_created unset show ?thesis
    by blast
qed

subsection \<open>The tags\<close>




end
